theory Spec2Isabelle
  imports Main "HOL-Library.Word" "HOL-Library.AList"
begin

section \<open>JavaScript strings\<close>

text \<open>
  A JavaScript string is a sequence of UTF-16 code units and \<^verbatim>\<open>s.length\<close> counts
  code units. The ellipsis U+2026 that the title builder inserts is one code unit, but
  does not fit an 8-bit \<^typ>\<open>char\<close>; strings are therefore lists of 16-bit words.
  \<open>str\<close> embeds an ASCII literal of the source.
\<close>

type_synonym uchar = "16 word"
type_synonym ustring = "uchar list"

definition uc :: "char \<Rightarrow> uchar" where
  "uc c = of_char c"

definition str :: "string \<Rightarrow> ustring" where
  "str s = map uc s"

definition ELLIPSIS :: uchar where
  "ELLIPSIS = 0x2026"

text \<open>
  \<^verbatim>\<open>toUpperCase\<close> and \<^verbatim>\<open>toLowerCase\<close> on the basic Latin letters; every other
  code unit is left as it is (the aggregation tokens the compiler receives, such as
  \<^verbatim>\<open>sum\<close> or \<^verbatim>\<open>avg\<close>, are ASCII).
\<close>

definition toUpperCase :: "ustring \<Rightarrow> ustring" where
  "toUpperCase s = map (\<lambda>c. if 0x61 \<le> c \<and> c \<le> 0x7A then c - 0x20 else c) s"

definition toLowerCase :: "ustring \<Rightarrow> ustring" where
  "toLowerCase s = map (\<lambda>c. if 0x41 \<le> c \<and> c \<le> 0x5A then c + 0x20 else c) s"

text \<open>\<^verbatim>\<open>s.substring(0, n)\<close>: a negative end is clamped to 0, a large one to the length.\<close>

definition substring0 :: "ustring \<Rightarrow> int \<Rightarrow> ustring" where
  "substring0 s n = take (nat n) s"

text \<open>\<^verbatim>\<open>xs.join(sep)\<close> on an array of strings.\<close>

fun join :: "ustring \<Rightarrow> ustring list \<Rightarrow> ustring" where
  "join sep [] = []"
| "join sep [x] = x"
| "join sep (x # y # ys) = x @ sep @ join sep (y # ys)"

text \<open>
  \<^verbatim>\<open>s.split(c)\<close> for a one-character separator: the segments between the occurrences
  of \<open>c\<close>, always at least one segment.
\<close>

fun split_on :: "uchar \<Rightarrow> ustring \<Rightarrow> ustring list" where
  "split_on c [] = [[]]"
| "split_on c (x # xs) =
     (if x = c then [] # split_on c xs
      else (case split_on c xs of
              [] \<Rightarrow> [[x]]
            | seg # segs \<Rightarrow> (x # seg) # segs))"

text \<open>
  A value interpolated into a template literal: a string as it is, \<^verbatim>\<open>undefined\<close>
  as the nine characters \<^verbatim>\<open>undefined\<close>.
\<close>

definition tpl :: "ustring option \<Rightarrow> ustring" where
  "tpl v = (case v of None \<Rightarrow> str ''undefined'' | Some s \<Rightarrow> s)"

text \<open>Array destructuring \<^verbatim>\<open>[, , x] = xs\<close>: a missing position is \<^verbatim>\<open>undefined\<close>.\<close>

definition at_index :: "'a list \<Rightarrow> nat \<Rightarrow> 'a option" where
  "at_index xs i = (if i < length xs then Some (xs ! i) else None)"

text \<open>
  Truthiness of a value that is a string, \<^verbatim>\<open>null\<close> or \<^verbatim>\<open>undefined\<close>: only a
  non-empty string is truthy. \<open>compact\<close> is lodash's \<^verbatim>\<open>compact\<close> (and
  \<^verbatim>\<open>filter(xs, e => !!e)\<close>) on such values.
\<close>

definition truthy :: "ustring option \<Rightarrow> bool" where
  "truthy v = (case v of None \<Rightarrow> False | Some s \<Rightarrow> s \<noteq> [])"

fun compact :: "ustring option list \<Rightarrow> ustring list" where
  "compact [] = []"
| "compact (None # vs) = compact vs"
| "compact (Some s # vs) = (if s \<noteq> [] then s # compact vs else compact vs)"

text \<open>\<^verbatim>\<open>a || b\<close> on such values.\<close>

definition or_else :: "ustring option \<Rightarrow> ustring option \<Rightarrow> ustring option" where
  "or_else a b = (if truthy a then a else b)"

section \<open>Title truncator\<close>

definition MAX_TITLE_LENGTH :: int where
  "MAX_TITLE_LENGTH = 255"

definition getMetricTitle :: "ustring \<Rightarrow> ustring \<Rightarrow> ustring" where
  "getMetricTitle suffix title =
     (let maxLength = MAX_TITLE_LENGTH - int (length suffix) in
      if title \<noteq> [] \<and> int (length title) > maxLength then
        if last title = uc CHR '')'' then
          substring0 title (maxLength - 2) @ [ELLIPSIS, uc CHR '')''] @ suffix
        else
          substring0 title (maxLength - 1) @ [ELLIPSIS] @ suffix
      else title @ suffix)"

definition getBaseMetricTitle :: "ustring \<Rightarrow> ustring" where
  "getBaseMetricTitle = getMetricTitle (str '''')"

definition POP_SUFFIX :: ustring where
  "POP_SUFFIX = str '' - previous year''"

definition getPoPMetricTitle :: "ustring \<Rightarrow> ustring" where
  "getPoPMetricTitle = getMetricTitle POP_SUFFIX"

definition CONTRIBUTION_METRIC_FORMAT :: ustring where
  "CONTRIBUTION_METRIC_FORMAT = str ''#,##0.00%''"

section \<open>Data model\<close>

text \<open>
  The objects of \<^verbatim>\<open>src/execution.js\<close> as records. Where several objects have a
  property of the same name, the field carries a prefix: \<open>af_attribute\<close> is
  \<^verbatim>\<open>listAttributeFilter.attribute\<close>, \<open>cat_attribute\<close> is \<^verbatim>\<open>category.attribute\<close>,
  \<open>df_attribute\<close> is \<^verbatim>\<open>dateFilter.attribute\<close>; \<open>mtype\<close>, \<open>msort\<close> are the measure's
  \<^verbatim>\<open>type\<close> and \<^verbatim>\<open>sort\<close>; \<open>df_from\<close>, \<open>df_to\<close> the date filter's \<^verbatim>\<open>from\<close> and
  \<^verbatim>\<open>to\<close>. An optional property is an \<open>option\<close>; \<open>None\<close> is \<^verbatim>\<open>undefined\<close>
  (or \<^verbatim>\<open>null\<close>). The wrappers \<^verbatim>\<open>{measure: ...}\<close>, \<^verbatim>\<open>{category: ...}\<close> and
  \<^verbatim>\<open>{metricDefinition: ...}\<close> are left implicit.
\<close>

datatype error = TypeError | InvariantViolation | RequestFailed

record attributeFilter =
  af_attribute :: ustring
  af_displayForm :: ustring
  attributeElements :: "ustring list"
  negativeSelection :: bool

record dateFilter =
  df_attribute :: "ustring option"
  dimension :: "ustring option"
  dataSet :: "ustring option"
  dataset :: "ustring option"
  granularity :: "ustring option"
  df_from :: "ustring option"
  df_to :: "ustring option"

text \<open>An item of \<^verbatim>\<open>buckets.filters\<close>: \<^verbatim>\<open>{listAttributeFilter: ...}\<close> or \<^verbatim>\<open>{dateFilter: ...}\<close>.\<close>

datatype bucketFilter = ListAttributeFilter attributeFilter | DateFilter dateFilter

text \<open>
  A measure's \<^verbatim>\<open>sort\<close>: the plain string \<^verbatim>\<open>"asc"\<close> or \<^verbatim>\<open>"desc"\<close> (backward
  compatibility), or an object \<^verbatim>\<open>{direction, sortByPoP}\<close>.
\<close>

datatype sortSetting = SortString ustring | SortObject "ustring option" bool

record measure =
  objectUri :: ustring
  mtype :: ustring
  aggregation :: "ustring option"
  title :: ustring
  format :: ustring
  msort :: "sortSetting option"
  showPoP :: bool
  showInPercent :: bool
  measureFilters :: "attributeFilter list"

record category =
  cat_attribute :: "ustring option"
  displayForm :: "ustring option"
  cat_type :: ustring
  cat_sort :: "ustring option"

record bucketSet =
  measureList :: "measure list"
  categories :: "category list"
  filters :: "bucketFilter list"

record mdObject =
  buckets :: bucketSet
  vtype :: "ustring option"

record compileOptions =
  removeDateItems :: bool

record metricDefinition =
  def_identifier :: ustring
  def_expression :: ustring
  def_title :: ustring
  def_format :: ustring

record metaInfo =
  measureIndex :: nat
  meta_isPoP :: "bool option"

text \<open>
  A generated-metric descriptor, and also the \<^verbatim>\<open>{element, sort}\<close> object made from a
  category (which has no \<^verbatim>\<open>definition\<close> and no \<^verbatim>\<open>meta\<close>).
\<close>

record item =
  element :: "ustring option"
  defn :: "metricDefinition option"
  item_sort :: "ustring option"
  meta :: "metaInfo option"

record orderEntry =
  column :: "ustring option"
  direction :: "ustring option"

record metricMapping =
  mm_element :: "ustring option"
  mm_measureIndex :: "nat option"
  mm_isPoP :: "bool option"

text \<open>
  The \<^verbatim>\<open>where\<close> object: keys in insertion order. An attribute clause is
  \<^verbatim>\<open>{$in: [{id}, ...]}\<close> or \<^verbatim>\<open>{$not: {$in: [{id}, ...]}}\<close>; a date clause is
  \<^verbatim>\<open>{$between: [from, to], $granularity}\<close>; the key \<^verbatim>\<open>$and\<close> holds the list of
  one-key attribute objects.
\<close>

datatype attributeCondition = InElements "ustring list" | NotInElements "ustring list"

datatype whereEntry =
  DateRange "ustring option" "ustring option" "ustring option"
| AndList "(ustring \<times> attributeCondition) list"

type_synonym whereObject = "(ustring \<times> whereEntry) list"

record executionConfiguration =
  columns :: "ustring list"
  orderBy :: "orderEntry list"
  definitions :: "metricDefinition list"
  where_clause :: whereObject
  metricMappings :: "metricMapping list"

section \<open>Metric expression compiler\<close>

definition allFiltersEmpty :: "measure \<Rightarrow> bool" where
  "allFiltersEmpty item' = list_all (\<lambda>f. attributeElements f = []) (measureFilters item')"

definition isDerived :: "measure \<Rightarrow> bool" where
  "isDerived m =
     (mtype m = str ''fact'' \<or> mtype m = str ''attribute'' \<or> \<not> allFiltersEmpty m)"

definition getFilterExpression :: "attributeFilter \<Rightarrow> ustring option" where
  "getFilterExpression f =
     (let attributeUri = af_attribute f;
          elements = attributeElements f
      in if elements = [] then None
         else
           let elementsForQuery = map (\<lambda>e. str ''['' @ e @ str '']'') elements;
               negative = (if negativeSelection f then str ''NOT '' else str '''')
           in Some (str ''['' @ attributeUri @ str ''] '' @ negative @ str ''IN (''
                    @ join (str '','') elementsForQuery @ str '')''))"

text \<open>The clause \<^verbatim>\<open> WHERE f1 AND f2 ...\<close> both expression builders compute.\<close>

definition whereExpressionOf :: "attributeFilter list \<Rightarrow> ustring" where
  "whereExpressionOf fs =
     (let whereFilters = compact (map getFilterExpression fs)
      in if whereFilters \<noteq> [] then str '' WHERE '' @ join (str '' AND '') whereFilters
         else str '''')"

definition getGeneratedMetricExpression :: "measure \<Rightarrow> ustring" where
  "getGeneratedMetricExpression item' =
     (let agg = toUpperCase (case aggregation item' of None \<Rightarrow> str '''' | Some a \<Rightarrow> a);
          uri = objectUri item'
      in str ''SELECT ''
         @ (if agg \<noteq> [] then agg @ str ''(['' @ uri @ str ''])''
            else str ''['' @ uri @ str '']'')
         @ whereExpressionOf (measureFilters item'))"

text \<open>
  \<^verbatim>\<open>omit(measure, 'measureFilters')\<close>: the expression builder reads the omitted
  property through \<^verbatim>\<open>map(get(item, 'measureFilters'), ...)\<close>, which is the empty
  array for \<^verbatim>\<open>undefined\<close>, so the copy without the property is the copy with no filter.
  The first category of the bucket is \<^verbatim>\<open>undefined\<close> when there is none, and
  destructuring it raises a TypeError.
\<close>

definition getPercentMetricExpression :: "category option \<Rightarrow> measure \<Rightarrow> error + ustring" where
  "getPercentMetricExpression cat m =
     (case cat of
        None \<Rightarrow> Inl TypeError
      | Some c \<Rightarrow>
          let metricExpressionWithoutFilters =
                (if isDerived m then getGeneratedMetricExpression (m\<lparr>measureFilters := []\<rparr>)
                 else str ''SELECT ['' @ objectUri m @ str '']'');
              attributeUri = cat_attribute c;
              whereExpression = whereExpressionOf (measureFilters m)
          in Inr (str ''SELECT ('' @ metricExpressionWithoutFilters @ whereExpression
                  @ str '') / ('' @ metricExpressionWithoutFilters @ str '' BY ALL [''
                  @ tpl attributeUri @ str '']'' @ whereExpression @ str '')''))"

text \<open>
  The date object a PoP expression refers to: the first date category, or else the first
  date filter.
\<close>

datatype dateSource = DateCategory category | DateFilterObject dateFilter

definition getPoPExpression :: "dateSource option \<Rightarrow> ustring \<Rightarrow> ustring" where
  "getPoPExpression attr metricExpression =
     (let attributeUri =
            (case attr of
               None \<Rightarrow> None
             | Some (DateCategory c) \<Rightarrow> cat_attribute c
             | Some (DateFilterObject d) \<Rightarrow> df_attribute d)
      in str ''SELECT '' @ metricExpression @ str '' FOR PREVIOUS ([''
         @ tpl attributeUri @ str ''])'')"

section \<open>Metric identifier generator\<close>

text \<open>
  \<^verbatim>\<open>md5\<close> is an external library: the digest is a parameter \<open>md5\<close> of every function
  that hashes.
\<close>

definition getGeneratedMetricHash ::
  "(ustring \<Rightarrow> ustring) \<Rightarrow> ustring \<Rightarrow> ustring \<Rightarrow> ustring \<Rightarrow> ustring" where
  "getGeneratedMetricHash md5 title' format' expression' =
     md5 (expression' @ str ''#'' @ title' @ str ''#'' @ format')"

definition getGeneratedMetricIdentifier ::
  "measure \<Rightarrow> ustring \<Rightarrow> (measure \<Rightarrow> error + ustring) \<Rightarrow> (ustring \<Rightarrow> ustring)
     \<Rightarrow> error + ustring" where
  "getGeneratedMetricIdentifier item' aggregation' expressionCreator hasher =
     (let parts = split_on (uc CHR ''/'') (objectUri item');
          prjId = at_index parts 3;
          id' = at_index parts 5;
          identifier' = tpl prjId @ str ''_'' @ tpl id'
      in case expressionCreator item' of
           Inl e \<Rightarrow> Inl e
         | Inr expression' \<Rightarrow>
             let hash = hasher expression';
                 hasNoFilters = (measureFilters item' = []);
                 type' = mtype item';
                 prefix' = (if hasNoFilters \<or> allFiltersEmpty item' then str ''''
                            else str ''_filtered'')
             in Inr (type' @ str ''_'' @ identifier' @ str ''.generated.'' @ hash @ prefix'
                     @ str ''_'' @ aggregation'))"

section \<open>Date resolution and sorting of a metric\<close>

definition isDateCategory :: "category \<Rightarrow> bool" where
  "isDateCategory c = (cat_type c = str ''date'')"

definition isDateFilter :: "bucketFilter \<Rightarrow> bool" where
  "isDateFilter f = (case f of DateFilter d \<Rightarrow> True | ListAttributeFilter a \<Rightarrow> False)"

definition getCategories :: "bucketSet \<Rightarrow> category list" where
  "getCategories b = categories b"

definition getFilters :: "bucketSet \<Rightarrow> bucketFilter list" where
  "getFilters b = filters b"

definition getDateCategory :: "bucketSet \<Rightarrow> category option" where
  "getDateCategory mdObj = find isDateCategory (getCategories mdObj)"

definition getDateFilter :: "bucketSet \<Rightarrow> dateFilter option" where
  "getDateFilter mdObj =
     (case find isDateFilter (getFilters mdObj) of
        Some (DateFilter d) \<Rightarrow> Some d
      | Some (ListAttributeFilter a) \<Rightarrow> None
      | None \<Rightarrow> None)"

definition getDate :: "bucketSet \<Rightarrow> dateSource option" where
  "getDate mdObj =
     (case getDateCategory mdObj of
        Some c \<Rightarrow> Some (DateCategory c)
      | None \<Rightarrow> map_option DateFilterObject (getDateFilter mdObj))"

fun getMetricSort :: "sortSetting option \<Rightarrow> bool \<Rightarrow> ustring option" where
  "getMetricSort (Some (SortString s)) isPoPMetric = Some s"
| "getMetricSort (Some (SortObject direction' sortByPoP)) isPoPMetric =
     (if (isPoPMetric \<and> sortByPoP) \<or> (\<not> isPoPMetric \<and> \<not> sortByPoP) then direction'
      else None)"
| "getMetricSort None isPoPMetric = None"

section \<open>Construction strategies\<close>

definition createPureMetric :: "measure \<Rightarrow> bucketSet \<Rightarrow> nat \<Rightarrow> item" where
  "createPureMetric m mdObj index =
     \<lparr>element = Some (objectUri m),
      defn = None,
      item_sort = getMetricSort (msort m) False,
      meta = Some \<lparr>measureIndex = index, meta_isPoP = None\<rparr>\<rparr>"

definition createDerivedMetric ::
  "(ustring \<Rightarrow> ustring) \<Rightarrow> measure \<Rightarrow> bucketSet \<Rightarrow> nat \<Rightarrow> error + item" where
  "createDerivedMetric md5 m mdObj index =
     (let title' = getBaseMetricTitle (title m);
          hasher = getGeneratedMetricHash md5 title' (format m);
          aggregation' =
            toLowerCase (case aggregation m of None \<Rightarrow> str ''base'' | Some a \<Rightarrow> a)
      in case getGeneratedMetricIdentifier m aggregation'
                (\<lambda>i. Inr (getGeneratedMetricExpression i)) hasher of
           Inl e \<Rightarrow> Inl e
         | Inr element' \<Rightarrow>
             Inr \<lparr>element = Some element',
                  defn = Some \<lparr>def_identifier = element',
                               def_expression = getGeneratedMetricExpression m,
                               def_title = title',
                               def_format = format m\<rparr>,
                  item_sort = getMetricSort (msort m) False,
                  meta = Some \<lparr>measureIndex = index, meta_isPoP = None\<rparr>\<rparr>)"

text \<open>lodash's \<^verbatim>\<open>first\<close>: \<^verbatim>\<open>undefined\<close> on the empty array.\<close>

definition first :: "'a list \<Rightarrow> 'a option" where
  "first xs = (case xs of [] \<Rightarrow> None | x # rest \<Rightarrow> Some x)"

definition createContributionMetric ::
  "(ustring \<Rightarrow> ustring) \<Rightarrow> measure \<Rightarrow> bucketSet \<Rightarrow> nat \<Rightarrow> error + item" where
  "createContributionMetric md5 m mdObj index =
     (let cat = first (getCategories mdObj);
          getMetricExpression = getPercentMetricExpression cat;
          title' = getBaseMetricTitle (title m);
          hasher = getGeneratedMetricHash md5 title' CONTRIBUTION_METRIC_FORMAT
      in case getGeneratedMetricIdentifier m (str ''percent'') getMetricExpression hasher of
           Inl e \<Rightarrow> Inl e
         | Inr element' \<Rightarrow>
             (case getMetricExpression m of
                Inl e \<Rightarrow> Inl e
              | Inr expression' \<Rightarrow>
                  Inr \<lparr>element = Some element',
                       defn = Some \<lparr>def_identifier = element',
                                    def_expression = expression',
                                    def_title = title',
                                    def_format = CONTRIBUTION_METRIC_FORMAT\<rparr>,
                       item_sort = getMetricSort (msort m) False,
                       meta = Some \<lparr>measureIndex = index, meta_isPoP = None\<rparr>\<rparr>))"

text \<open>\<^verbatim>\<open>get(generated, 'definition.metricDefinition.expression')\<close>.\<close>

definition definitionExpression :: "item \<Rightarrow> ustring option" where
  "definitionExpression g = map_option def_expression (defn g)"

text \<open>The PoP descriptor both PoP strategies build.\<close>

definition popItem ::
  "ustring \<Rightarrow> ustring \<Rightarrow> ustring \<Rightarrow> ustring \<Rightarrow> measure \<Rightarrow> nat \<Rightarrow> item" where
  "popItem identifier' expression' title' format' m index =
     \<lparr>element = Some identifier',
      defn = Some \<lparr>def_identifier = identifier',
                   def_expression = expression',
                   def_title = title',
                   def_format = format'\<rparr>,
      item_sort = getMetricSort (msort m) True,
      meta = Some \<lparr>measureIndex = index, meta_isPoP = Some True\<rparr>\<rparr>"

definition createPoPMetric ::
  "(ustring \<Rightarrow> ustring) \<Rightarrow> measure \<Rightarrow> bucketSet \<Rightarrow> nat \<Rightarrow> error + item list" where
  "createPoPMetric md5 m mdObj index =
     (let title' = getPoPMetricTitle (title m);
          format' = format m;
          hasher = getGeneratedMetricHash md5 title' format';
          date = getDate mdObj
      in case (if isDerived m then map_sum id Some (createDerivedMetric md5 m mdObj index)
               else Inr None) of
           Inl e \<Rightarrow> Inl e
         | Inr generated \<Rightarrow>
             let popExpression =
                   (case generated of
                      None \<Rightarrow> getPoPExpression date (str ''['' @ objectUri m @ str '']'')
                    | Some g \<Rightarrow>
                        getPoPExpression date
                          (str ''('' @ tpl (definitionExpression g) @ str '')''))
             in case getGeneratedMetricIdentifier m (str ''pop'')
                       (\<lambda>i. Inr popExpression) hasher of
                  Inl e \<Rightarrow> Inl e
                | Inr identifier' \<Rightarrow>
                    Inr [popItem identifier' popExpression title' format' m index,
                         (case generated of
                            Some g \<Rightarrow> g
                          | None \<Rightarrow> createPureMetric m mdObj index)])"

definition createContributionPoPMetric ::
  "(ustring \<Rightarrow> ustring) \<Rightarrow> measure \<Rightarrow> bucketSet \<Rightarrow> nat \<Rightarrow> error + item list" where
  "createContributionPoPMetric md5 m mdObj index =
     (let date = getDate mdObj
      in case createContributionMetric md5 m mdObj index of
           Inl e \<Rightarrow> Inl e
         | Inr generated \<Rightarrow>
             let title' = getPoPMetricTitle (title m);
                 format' = CONTRIBUTION_METRIC_FORMAT;
                 hasher = getGeneratedMetricHash md5 title' format';
                 popExpression =
                   getPoPExpression date
                     (str ''('' @ tpl (definitionExpression generated) @ str '')'')
             in case getGeneratedMetricIdentifier m (str ''pop'')
                       (\<lambda>i. Inr popExpression) hasher of
                  Inl e \<Rightarrow> Inl e
                | Inr identifier' \<Rightarrow>
                    Inr [popItem identifier' popExpression title' format' m index,
                         generated])"

section \<open>Filter translator\<close>

definition categoryToElement :: "category \<Rightarrow> item" where
  "categoryToElement c =
     \<lparr>element = displayForm c, defn = None, item_sort = cat_sort c, meta = None\<rparr>"

text \<open>
  The \<^verbatim>\<open>get\<close> of a path below \<^verbatim>\<open>listAttributeFilter\<close> (or \<^verbatim>\<open>dateFilter\<close>) on an
  item of the other kind is \<^verbatim>\<open>undefined\<close>.
\<close>

definition attributeFilterToWhere :: "bucketFilter \<Rightarrow> ustring \<times> attributeCondition" where
  "attributeFilterToWhere f =
     (case f of
        ListAttributeFilter a \<Rightarrow>
          let elementsForQuery = map (\<lambda>e. last (split_on (uc CHR ''='') e)) (attributeElements a);
              dfUri = af_displayForm a
          in if negativeSelection a then (dfUri, NotInElements elementsForQuery)
             else (dfUri, InElements elementsForQuery)
      | DateFilter d \<Rightarrow> (tpl None, InElements []))"

definition dateFilterToWhere :: "bucketFilter \<Rightarrow> ustring \<times> whereEntry" where
  "dateFilterToWhere f =
     (case f of
        DateFilter d \<Rightarrow>
          let dateUri = or_else (or_else (dimension d) (dataSet d)) (dataset d)
          in (tpl dateUri, DateRange (df_from d) (df_to d) (granularity d))
      | ListAttributeFilter a \<Rightarrow> (tpl None, DateRange None None None))"

definition isDateFilterExecutable :: "bucketFilter \<Rightarrow> bool" where
  "isDateFilterExecutable f =
     (case f of
        DateFilter d \<Rightarrow> df_from d \<noteq> None \<and> df_to d \<noteq> None
      | ListAttributeFilter a \<Rightarrow> False)"

definition isAttributeFilterExecutable :: "bucketFilter \<Rightarrow> bool" where
  "isAttributeFilterExecutable f =
     (case f of
        ListAttributeFilter a \<Rightarrow> attributeElements a \<noteq> []
      | DateFilter d \<Rightarrow> False)"

text \<open>
  \<^verbatim>\<open>[...dateFilters].reduce(assign, {})\<close> merges the one-key date objects from left to
  right, a later key overwriting an earlier equal one; the spread then sets \<^verbatim>\<open>$and\<close>.
\<close>

definition getWhere :: "bucketFilter list \<Rightarrow> whereObject" where
  "getWhere fs =
     (let executableFilters = filter isAttributeFilterExecutable fs;
          attributeFilters = map attributeFilterToWhere executableFilters;
          dateFilters = map dateFilterToWhere (filter isDateFilterExecutable fs);
          resultDate = foldl (\<lambda>acc (k, v). AList.update k v acc) [] dateFilters
      in AList.update (str ''$and'') (AndList attributeFilters) resultDate)"

section \<open>Rule dispatcher\<close>

definition isPoP :: "measure \<Rightarrow> bool" where
  "isPoP m = showPoP m"

definition isContribution :: "measure \<Rightarrow> bool" where
  "isContribution m = showInPercent m"

definition isCalculatedMeasure :: "measure \<Rightarrow> bool" where
  "isCalculatedMeasure m = (mtype m = str ''metric'')"

text \<open>The five construction strategies, as the values the rule table holds.\<close>

datatype factory =
  CreateContributionPoPMetric
| CreatePoPMetric
| CreateContributionMetric
| CreateDerivedMetric
| CreatePureMetric

text \<open>
  Modelled from the spec: the class \<^verbatim>\<open>Rules\<close> of \<^verbatim>\<open>src/utils/rules\<close> is not among
  the sources. The spec (4.1): strategies are registered as ordered (predicate-set,
  strategy) pairs; dispatch evaluates the registered pairs in registration order and
  returns the first strategy whose every predicate holds; there is no fallback.
  \<open>addRule\<close> appends a pair, \<open>match\<close> is the dispatch, with \<open>None\<close> when no pair matches.
\<close>

type_synonym ruleTable = "((measure \<Rightarrow> bool) list \<times> factory) list"

definition addRule :: "(measure \<Rightarrow> bool) list \<Rightarrow> factory \<Rightarrow> ruleTable \<Rightarrow> ruleTable" where
  "addRule tests callback table = table @ [(tests, callback)]"

fun match :: "ruleTable \<Rightarrow> measure \<Rightarrow> factory option" where
  "match [] subject = None"
| "match ((tests, callback) # table) subject =
     (if list_all (\<lambda>test. test subject) tests then Some callback
      else match table subject)"

text \<open>The table of \<^verbatim>\<open>src/execution.js\<close>: five \<^verbatim>\<open>addRule\<close> calls, in this order.\<close>

definition rules :: ruleTable where
  "rules =
     addRule [isCalculatedMeasure] CreatePureMetric
    (addRule [isDerived] CreateDerivedMetric
    (addRule [isContribution] CreateContributionMetric
    (addRule [isPoP] CreatePoPMetric
    (addRule [isPoP, isContribution] CreateContributionPoPMetric []))))"

text \<open>\<^verbatim>\<open>invariant(factory, ...)\<close> throws when no rule matched.\<close>

definition getMetricFactory :: "measure \<Rightarrow> error + factory" where
  "getMetricFactory m =
     (case match rules m of
        None \<Rightarrow> Inl InvariantViolation
      | Some f \<Rightarrow> Inr f)"

text \<open>
  The call \<^verbatim>\<open>getMetricFactory(measure)(measure, buckets, index)\<close>, with the result as
  \<^verbatim>\<open>flatten\<close> sees it: the array of a PoP strategy as it is, the single descriptor of
  any other strategy as a one-element array.
\<close>

definition single :: "error + item \<Rightarrow> error + item list" where
  "single r = (case r of Inl e \<Rightarrow> Inl e | Inr d \<Rightarrow> Inr [d])"

definition callFactory ::
  "(ustring \<Rightarrow> ustring) \<Rightarrow> factory \<Rightarrow> measure \<Rightarrow> bucketSet \<Rightarrow> nat \<Rightarrow> error + item list" where
  "callFactory md5 f m b index =
     (case f of
        CreateContributionPoPMetric \<Rightarrow> createContributionPoPMetric md5 m b index
      | CreatePoPMetric \<Rightarrow> createPoPMetric md5 m b index
      | CreateContributionMetric \<Rightarrow> single (createContributionMetric md5 m b index)
      | CreateDerivedMetric \<Rightarrow> single (createDerivedMetric md5 m b index)
      | CreatePureMetric \<Rightarrow> single (Inr (createPureMetric m b index)))"

section \<open>Execution configuration assembler\<close>

definition sortToOrderBy :: "item \<Rightarrow> orderEntry" where
  "sortToOrderBy i = \<lparr>column = element i, direction = item_sort i\<rparr>"

definition getOrderBy :: "item list \<Rightarrow> item list \<Rightarrow> ustring option \<Rightarrow> orderEntry list" where
  "getOrderBy metrics cats type' =
     (if type' = Some (str ''bar'') \<and> metrics \<noteq> [] then
        [\<lparr>column = first (compact (map element metrics)),
          direction = Some (str ''desc'')\<rparr>]
      else map sortToOrderBy (filter (\<lambda>i. truthy (item_sort i)) (cats @ metrics)))"

text \<open>
  \<^verbatim>\<open>flatten(map(measures, (measure, index) => getMetricFactory(measure)(measure, buckets, index)))\<close>:
  the measures in index order; the first exception ends the compilation.
\<close>

fun createMetrics ::
  "(ustring \<Rightarrow> ustring) \<Rightarrow> bucketSet \<Rightarrow> measure list \<Rightarrow> nat \<Rightarrow> error + item list" where
  "createMetrics md5 b [] index = Inr []"
| "createMetrics md5 b (m # ms) index =
     (case getMetricFactory m of
        Inl e \<Rightarrow> Inl e
      | Inr f \<Rightarrow>
          (case callFactory md5 f m b index of
             Inl e \<Rightarrow> Inl e
           | Inr ds \<Rightarrow>
               (case createMetrics md5 b ms (Suc index) of
                  Inl e \<Rightarrow> Inl e
                | Inr rest \<Rightarrow> Inr (ds @ rest))))"

text \<open>\<^verbatim>\<open>compact(map(metrics, 'definition'))\<close>.\<close>

fun compactDefinitions :: "metricDefinition option list \<Rightarrow> metricDefinition list" where
  "compactDefinitions [] = []"
| "compactDefinitions (None # ds) = compactDefinitions ds"
| "compactDefinitions (Some d # ds) = d # compactDefinitions ds"

text \<open>\<^verbatim>\<open>m => ({element: m.element, ...m.meta})\<close>.\<close>

definition toMetricMapping :: "item \<Rightarrow> metricMapping" where
  "toMetricMapping m =
     \<lparr>mm_element = element m,
      mm_measureIndex = map_option measureIndex (meta m),
      mm_isPoP = (case meta m of None \<Rightarrow> None | Some mt \<Rightarrow> meta_isPoP mt)\<rparr>"

text \<open>
  \<^verbatim>\<open>sortDefinitions\<close> of \<^verbatim>\<open>src/utils/definitions\<close> is not among the sources: the
  assembler takes it as the parameter \<open>sortDefs\<close>.
\<close>

definition mdToExecutionConfiguration ::
  "(metricDefinition list \<Rightarrow> metricDefinition list) \<Rightarrow> (ustring \<Rightarrow> ustring) \<Rightarrow>
     mdObject \<Rightarrow> compileOptions \<Rightarrow> error + executionConfiguration" where
  "mdToExecutionConfiguration sortDefs md5 mdObj opts =
     (let b = buckets mdObj
      in case createMetrics md5 b (measureList b) 0 of
           Inl e \<Rightarrow> Inl e
         | Inr metrics \<Rightarrow>
             let cats0 = (if removeDateItems opts
                          then filter (\<lambda>c. cat_type c \<noteq> str ''date'') (getCategories b)
                          else getCategories b);
                 filters' = (if removeDateItems opts
                             then filter (\<lambda>f. \<not> isDateFilter f) (getFilters b)
                             else getFilters b);
                 cats = map categoryToElement cats0;
                 cols = compact (map element (cats @ metrics))
             in Inr \<lparr>columns = cols,
                     orderBy = getOrderBy metrics cats (vtype mdObj),
                     definitions = sortDefs (compactDefinitions (map defn metrics)),
                     where_clause = (if cols \<noteq> [] then getWhere filters' else []),
                     metricMappings = map toMetricMapping metrics\<rparr>)"

text \<open>
  Modelled from the spec: \<^verbatim>\<open>sortDefinitions\<close> of \<^verbatim>\<open>src/utils/definitions\<close> is not
  among the sources. The spec (4.6, 6): it deduplicates the generated definitions and
  keeps a stable order. Here: the first occurrence of every definition, in the order
  of the input.
\<close>

fun sortDefinitions :: "metricDefinition list \<Rightarrow> metricDefinition list" where
  "sortDefinitions [] = []"
| "sortDefinitions (d # ds) = d # sortDefinitions (filter (\<lambda>x. x \<noteq> d) ds)"

section \<open>Example inputs\<close>

text \<open>The measure of the end-to-end examples of the spec (section 8).\<close>

definition revenue :: measure where
  "revenue =
     \<lparr>objectUri = str ''/gdc/md/p1/obj/5'',
      mtype = str ''metric'',
      aggregation = None,
      title = str ''Revenue'',
      format = str ''#,##0'',
      msort = None,
      showPoP = False,
      showInPercent = False,
      measureFilters = []\<rparr>"

text \<open>A bucket that holds this measure only: no category, no filter.\<close>

definition revenueBucket :: bucketSet where
  "revenueBucket = \<lparr>measureList = [revenue], categories = [], filters = []\<rparr>"

text \<open>
  A fact measure with an aggregation and two filters: one without selected elements, one
  negative filter with two elements.
\<close>

definition amountSum :: measure where
  "amountSum =
     \<lparr>objectUri = str ''/gdc/md/p1/obj/7'',
      mtype = str ''fact'',
      aggregation = Some (str ''sum''),
      title = str ''Sum of Amount'',
      format = str ''#,##0.00'',
      msort = None,
      showPoP = False,
      showInPercent = False,
      measureFilters =
        [\<lparr>af_attribute = str ''/gdc/md/p1/obj/10'', af_displayForm = str ''/gdc/md/p1/obj/11'',
          attributeElements = [], negativeSelection = False\<rparr>,
         \<lparr>af_attribute = str ''/gdc/md/p1/obj/20'', af_displayForm = str ''/gdc/md/p1/obj/21'',
          attributeElements = [str ''/e?id=1'', str ''/e?id=2''], negativeSelection = True\<rparr>]\<rparr>"

text \<open>Two metric descriptors with ascending sorts, and a category element sorted descending.\<close>

definition metricA :: item where
  "metricA =
     \<lparr>element = Some (str ''/gdc/md/p1/obj/5''), defn = None, item_sort = Some (str ''asc''),
      meta = Some \<lparr>measureIndex = 0, meta_isPoP = None\<rparr>\<rparr>"

definition metricB :: item where
  "metricB =
     \<lparr>element = Some (str ''/gdc/md/p1/obj/6''), defn = None, item_sort = Some (str ''asc''),
      meta = Some \<lparr>measureIndex = 1, meta_isPoP = None\<rparr>\<rparr>"

definition categoryC :: item where
  "categoryC =
     \<lparr>element = Some (str ''/gdc/md/p1/obj/30''), defn = None, item_sort = Some (str ''desc''),
      meta = None\<rparr>"

text \<open>A date category, and the bucket of the second end-to-end example of the spec.\<close>

definition dateCategory :: category where
  "dateCategory =
     \<lparr>cat_attribute = Some (str ''/gdc/md/p1/obj/40''),
      displayForm = Some (str ''/gdc/md/p1/obj/41''),
      cat_type = str ''date'',
      cat_sort = None\<rparr>"

definition revenuePoP :: measure where
  "revenuePoP = revenue\<lparr>showPoP := True\<rparr>"

definition revenuePoPBucket :: bucketSet where
  "revenuePoPBucket = \<lparr>measureList = [revenuePoP], categories = [dateCategory], filters = []\<rparr>"

text \<open>The measure with both flags, in a bucket without category.\<close>

definition revenuePoPPercent :: measure where
  "revenuePoPPercent = revenue\<lparr>showPoP := True, showInPercent := True\<rparr>"

definition revenuePoPPercentBucket :: bucketSet where
  "revenuePoPPercentBucket =
     \<lparr>measureList = [revenuePoPPercent], categories = [], filters = []\<rparr>"

text \<open>
  A measure of type \<^verbatim>\<open>metric\<close> that carries an aggregation and is shown in percent, in a
  bucket with one category.
\<close>

definition revenueSumPercent :: measure where
  "revenueSumPercent = revenue\<lparr>aggregation := Some (str ''sum''), showInPercent := True\<rparr>"

definition regionCategory :: category where
  "regionCategory =
     \<lparr>cat_attribute = Some (str ''/gdc/md/p1/obj/50''),
      displayForm = Some (str ''/gdc/md/p1/obj/51''),
      cat_type = str ''attribute'',
      cat_sort = None\<rparr>"

definition revenueSumPercentBucket :: bucketSet where
  "revenueSumPercentBucket =
     \<lparr>measureList = [revenueSumPercent], categories = [regionCategory], filters = []\<rparr>"

section \<open>The grammar of the spec, for comparison\<close>

text \<open>
  The filter clause as the spec (4.2) words it: \<^verbatim>\<open>[<attributeUri>] [NOT ]IN (<e1>,<e2>,...)\<close>
  with every element in brackets of its own. It is compared below with what
  \<open>getFilterExpression\<close> computes.
\<close>

definition specFilterClause :: "attributeFilter \<Rightarrow> ustring" where
  "specFilterClause f =
     str ''['' @ af_attribute f @ str ''] ''
     @ (if negativeSelection f then str ''NOT IN ('' else str ''IN ('')
     @ join (str '','') (map (\<lambda>e. str ''['' @ e @ str '']'') (attributeElements f))
     @ str '')''"

text \<open>
  The \<^verbatim>\<open>WHERE\<close> clause as the spec words it: nothing when no filter has a selected
  element, else \<^verbatim>\<open> WHERE <f1> AND <f2> ...\<close> over the filters that have one.
\<close>

definition specWhereClause :: "attributeFilter list \<Rightarrow> ustring" where
  "specWhereClause fs =
     (case filter (\<lambda>f. attributeElements f \<noteq> []) fs of
        [] \<Rightarrow> str ''''
      | g # gs \<Rightarrow> str '' WHERE '' @ join (str '' AND '') (map specFilterClause (g # gs)))"

section \<open>The metadata object in the store, and \<open>getDataForVis\<close>\<close>

text \<open>
  \<^verbatim>\<open>getDataForVis\<close> assigns to a property of an object its caller holds, so here the
  objects live in a store: a list of objects, the address of an object being its index.
  A new object is appended, so its address is the length of the store before. The
  metadata object refers to its buckets object, that one to the array of measure wrappers,
  every wrapper \<^verbatim>\<open>{measure: ...}\<close> to a measure object. Categories and filters are not
  touched by \<^verbatim>\<open>getDataForVis\<close> and are kept as values inside the buckets object.
\<close>

type_synonym addr = nat

datatype jsobject =
  MdObjectAt addr "ustring option"
| BucketsAt addr "category list" "bucketFilter list"
| ArrayOf "addr list"
| WrapperOf addr
| MeasureObject measure

type_synonym store = "jsobject list"

definition alloc :: "store \<Rightarrow> jsobject \<Rightarrow> store \<times> addr" where
  "alloc h obj = (h @ [obj], length h)"

text \<open>The measure object behind a wrapper, and the measure objects behind an array of wrappers.\<close>

definition measureRefOf :: "store \<Rightarrow> addr \<Rightarrow> addr option" where
  "measureRefOf h w = (case at_index h w of Some (WrapperOf r) \<Rightarrow> Some r | _ \<Rightarrow> None)"

definition measureAt :: "store \<Rightarrow> addr \<Rightarrow> measure option" where
  "measureAt h r = (case at_index h r of Some (MeasureObject m) \<Rightarrow> Some m | _ \<Rightarrow> None)"

text \<open>
  The value of the metadata object at an address, as \<open>mdToExecutionConfiguration\<close> reads
  it; \<open>None\<close> when the store does not hold such an object there.
\<close>

definition readMdObject :: "store \<Rightarrow> addr \<Rightarrow> mdObject option" where
  "readMdObject h a =
     (case at_index h a of
        Some (MdObjectAt b vt) \<Rightarrow>
          (case at_index h b of
             Some (BucketsAt arr cats fs) \<Rightarrow>
               (case at_index h arr of
                  Some (ArrayOf ws) \<Rightarrow>
                    (case those (map (measureRefOf h) ws) of
                       Some rs \<Rightarrow>
                         (case those (map (measureAt h) rs) of
                            Some ms \<Rightarrow>
                              Some \<lparr>buckets = \<lparr>measureList = ms, categories = cats,
                                               filters = fs\<rparr>,
                                    vtype = vt\<rparr>
                          | None \<Rightarrow> None)
                     | None \<Rightarrow> None)
                | _ \<Rightarrow> None)
           | _ \<Rightarrow> None)
      | _ \<Rightarrow> None)"

text \<open>
  \<^verbatim>\<open>xhrGet\<close> of \<^verbatim>\<open>src/xhr\<close> is not among the sources: the request is the parameter
  \<open>xhrGet\<close>, which for an object URI gives a rejection or the value of
  \<^verbatim>\<open>get(obj, 'metric.content.format')\<close> of the response (\<open>None\<close> when the response has
  no such property).
\<close>

type_synonym formatRequest = "ustring \<Rightarrow> error + ustring option"

text \<open>The condition \<^verbatim>\<open>measure.showPoP === true || measure.measureFilters.length > 0\<close>.\<close>

definition needsOriginalFormat :: "measure \<Rightarrow> bool" where
  "needsOriginalFormat m = (showPoP m \<or> measureFilters m \<noteq> [])"

text \<open>
  The body of \<^verbatim>\<open>getOriginalMetricFormats\<close> over the measure objects: a measure that
  needs its original format is replaced by a new object, the copy
  \<^verbatim>\<open>{...measure, format: get(obj, 'metric.content.format', measure.format)}\<close>; any other
  measure object is passed on as it is. \<^verbatim>\<open>Promise.all\<close> is rejected as soon as one
  request is.
\<close>

fun resolveFormats :: "formatRequest \<Rightarrow> store \<Rightarrow> addr list \<Rightarrow> error + store \<times> addr list" where
  "resolveFormats xhrGet h [] = Inr (h, [])"
| "resolveFormats xhrGet h (r # rs) =
     (case measureAt h r of
        None \<Rightarrow> Inl TypeError
      | Some m \<Rightarrow>
          if needsOriginalFormat m then
            (case xhrGet (objectUri m) of
               Inl e \<Rightarrow> Inl e
             | Inr fmt \<Rightarrow>
                 (case alloc h (MeasureObject
                          (m\<lparr>format := (case fmt of None \<Rightarrow> format m | Some f \<Rightarrow> f)\<rparr>)) of
                    (h1, r') \<Rightarrow>
                      (case resolveFormats xhrGet h1 rs of
                         Inl e \<Rightarrow> Inl e
                       | Inr (h2, rs') \<Rightarrow> Inr (h2, r' # rs'))))
          else
            (case resolveFormats xhrGet h rs of
               Inl e \<Rightarrow> Inl e
             | Inr (h2, rs') \<Rightarrow> Inr (h2, r # rs')))"

definition getOriginalMetricFormats ::
  "formatRequest \<Rightarrow> store \<Rightarrow> addr \<Rightarrow> error + store \<times> addr list" where
  "getOriginalMetricFormats xhrGet h mdObj =
     (case at_index h mdObj of
        Some (MdObjectAt b vt) \<Rightarrow>
          (case at_index h b of
             Some (BucketsAt arr cats fs) \<Rightarrow>
               (case at_index h arr of
                  Some (ArrayOf ws) \<Rightarrow>
                    (case those (map (measureRefOf h) ws) of
                       Some rs \<Rightarrow> resolveFormats xhrGet h rs
                     | None \<Rightarrow> Inl TypeError)
                | _ \<Rightarrow> Inl TypeError)
           | _ \<Rightarrow> Inl TypeError)
      | _ \<Rightarrow> Inl TypeError)"

text \<open>\<^verbatim>\<open>map(measures, measure => ({ measure }))\<close>: a new wrapper for every measure.\<close>

fun wrapMeasures :: "store \<Rightarrow> addr list \<Rightarrow> store \<times> addr list" where
  "wrapMeasures h [] = (h, [])"
| "wrapMeasures h (r # rs) =
     (case alloc h (WrapperOf r) of
        (h1, w) \<Rightarrow> (case wrapMeasures h1 rs of (h2, ws) \<Rightarrow> (h2, w # ws)))"

text \<open>
  \<open>getDataForVis\<close> up to the call of \<^verbatim>\<open>getData\<close> (the transport): the store after the
  call, and the configuration handed to \<^verbatim>\<open>getData\<close> or the reason of the rejection. When
  a format request is rejected, the callback of \<^verbatim>\<open>then\<close> does not run. In the callback,
  \<^verbatim>\<open>metadata\<close> is the caller's object itself, and the assignment to
  \<^verbatim>\<open>metadata.buckets.measures\<close> updates the buckets object in place; the compiler then
  reads the updated object.
\<close>

definition getDataForVis ::
  "formatRequest \<Rightarrow> (metricDefinition list \<Rightarrow> metricDefinition list) \<Rightarrow> (ustring \<Rightarrow> ustring) \<Rightarrow>
     store \<Rightarrow> addr \<Rightarrow> store \<times> (error + executionConfiguration)" where
  "getDataForVis xhrGet sortDefs md5 h mdObj =
     (case getOriginalMetricFormats xhrGet h mdObj of
        Inl e \<Rightarrow> (h, Inl e)
      | Inr (h1, rs) \<Rightarrow>
          (case at_index h1 mdObj of
             Some (MdObjectAt b vt) \<Rightarrow>
               (case at_index h1 b of
                  Some (BucketsAt arr cats fs) \<Rightarrow>
                    (case wrapMeasures h1 rs of
                       (h2, ws) \<Rightarrow>
                         (case alloc h2 (ArrayOf ws) of
                            (h3, arr') \<Rightarrow>
                              let h4 = h3[b := BucketsAt arr' cats fs]
                              in (h4,
                                  case readMdObject h4 mdObj of
                                    None \<Rightarrow> Inl TypeError
                                  | Some v \<Rightarrow>
                                      mdToExecutionConfiguration sortDefs md5 v
                                        \<lparr>removeDateItems = False\<rparr>)))
                | _ \<Rightarrow> (h1, Inl TypeError))
           | _ \<Rightarrow> (h1, Inl TypeError)))"

text \<open>
  A store that holds a metadata object at \<open>a\<close>: its buckets object at \<open>b\<close>, the array of
  wrappers at \<open>arr\<close>, the wrappers at \<open>ws\<close>, their measure objects at \<open>rs\<close>, with the values
  \<open>ms\<close>.
\<close>

definition holdsMdObject ::
  "store \<Rightarrow> addr \<Rightarrow> addr \<Rightarrow> addr \<Rightarrow> addr list \<Rightarrow> addr list \<Rightarrow> measure list \<Rightarrow>
     category list \<Rightarrow> bucketFilter list \<Rightarrow> ustring option \<Rightarrow> bool" where
  "holdsMdObject h a b arr ws rs ms cats fs vt =
     (at_index h a = Some (MdObjectAt b vt) \<and>
      at_index h b = Some (BucketsAt arr cats fs) \<and>
      at_index h arr = Some (ArrayOf ws) \<and>
      map (at_index h) ws = map (\<lambda>r. Some (WrapperOf r)) rs \<and>
      map (at_index h) rs = map (\<lambda>m. Some (MeasureObject m)) ms)"

text \<open>The measure a format request turns a measure into.\<close>

definition withOriginalFormat :: "formatRequest \<Rightarrow> measure \<Rightarrow> measure" where
  "withOriginalFormat xhrGet m =
     (if needsOriginalFormat m then
        (case xhrGet (objectUri m) of
           Inr (Some f) \<Rightarrow> m\<lparr>format := f\<rparr>
         | _ \<Rightarrow> m)
      else m)"

text \<open>
  An example store: the metadata object at 0, its buckets object at 1, the array of two
  wrappers at 2, the wrappers at 3 and 4, and their measure objects at 5 (\<open>revenuePoP\<close>,
  which needs its original format) and 6 (\<open>revenue\<close>, which does not). The example server
  answers every request with the format \<^verbatim>\<open>$#,##0.00\<close>.
\<close>

definition exampleStore :: store where
  "exampleStore =
     [MdObjectAt 1 None,
      BucketsAt 2 [dateCategory] [],
      ArrayOf [3, 4],
      WrapperOf 5,
      WrapperOf 6,
      MeasureObject revenuePoP,
      MeasureObject revenue]"

definition exampleServer :: formatRequest where
  "exampleServer uri = Inr (Some (str ''$#,##0.00''))"

section \<open>Facts about strings\<close>

lemma of_char_less_256: "(of_char c :: nat) < 256"
  by (metis of_char_mod_256 mod_less_divisor zero_less_numeral)

lemma unat_uc: "unat (uc c) = of_char c"
proof -
  have "uc c = of_nat (of_char c)"
    by (simp add: uc_def of_nat_of_char)
  moreover have "(of_char c :: nat) < 2 ^ 16"
    using of_char_less_256 [of c] by (rule less_trans) simp
  ultimately show ?thesis
    by (simp add: unat_of_nat take_bit_nat_eq_self)
qed

lemma uc_eq_iff [simp]: "uc c = uc d \<longleftrightarrow> c = d"
proof
  assume "uc c = uc d"
  then have "unat (uc c) = unat (uc d)" by simp
  then show "c = d" by (simp add: unat_uc)
qed simp

lemma uc_neq_ELLIPSIS [simp]: "uc c \<noteq> ELLIPSIS" "ELLIPSIS \<noteq> uc c"
proof -
  have "unat (uc c) < 256" by (simp add: unat_uc of_char_less_256)
  moreover have "unat ELLIPSIS = 8230" by (simp add: ELLIPSIS_def)
  ultimately show "uc c \<noteq> ELLIPSIS" "ELLIPSIS \<noteq> uc c" by auto
qed

lemma str_eq_iff [simp]: "str s = str t \<longleftrightarrow> s = t"
  by (simp add: str_def inj_map_eq_map inj_on_def)

lemma str_Nil [simp]: "str [] = []"
  by (simp add: str_def)

lemma str_Cons: "str (c # s) = uc c # str s"
  by (simp add: str_def)

lemma length_str [simp]: "length (str s) = length s"
  by (simp add: str_def)

lemma str_eq_Nil_iff [simp]: "str s = [] \<longleftrightarrow> s = []"
  by (simp add: str_def)

section \<open>Facts about the dispatcher\<close>

lemma rules_table:
  "rules =
     [([isPoP, isContribution], CreateContributionPoPMetric),
      ([isPoP], CreatePoPMetric),
      ([isContribution], CreateContributionMetric),
      ([isDerived], CreateDerivedMetric),
      ([isCalculatedMeasure], CreatePureMetric)]"
  by (simp add: rules_def addRule_def)

lemma match_first:
  "match table m = map_option snd (find (\<lambda>r. list_all (\<lambda>test. test m) (fst r)) table)"
  by (induction table) auto

lemma getMetricFactory_cascade:
  "getMetricFactory m =
     (if isPoP m \<and> isContribution m then Inr CreateContributionPoPMetric
      else if isPoP m then Inr CreatePoPMetric
      else if isContribution m then Inr CreateContributionMetric
      else if isDerived m then Inr CreateDerivedMetric
      else if isCalculatedMeasure m then Inr CreatePureMetric
      else Inl InvariantViolation)"
  by (simp add: getMetricFactory_def rules_table)

lemma getMetricFactory_revenue: "getMetricFactory revenue = Inr CreatePureMetric"
  by (simp add: getMetricFactory_cascade isPoP_def isContribution_def isDerived_def
      allFiltersEmpty_def isCalculatedMeasure_def revenue_def)

section \<open>Facts about the expression compiler\<close>

lemma getFilterExpression_empty:
  "attributeElements f = [] \<Longrightarrow> getFilterExpression f = None"
  by (simp add: getFilterExpression_def)

lemma getFilterExpression_nonempty:
  "attributeElements f \<noteq> [] \<Longrightarrow> getFilterExpression f = Some (specFilterClause f)"
  by (simp add: getFilterExpression_def specFilterClause_def Let_def str_Cons)

lemma specFilterClause_not_Nil: "specFilterClause f \<noteq> []"
  by (simp add: specFilterClause_def str_Cons)

lemma compact_getFilterExpression:
  "compact (map getFilterExpression fs) =
     map specFilterClause (filter (\<lambda>f. attributeElements f \<noteq> []) fs)"
proof (induction fs)
  case Nil
  show ?case by simp
next
  case (Cons f fs)
  show ?case
  proof (cases "attributeElements f = []")
    case True
    with Cons show ?thesis by (simp add: getFilterExpression_empty)
  next
    case False
    with Cons show ?thesis
      by (simp add: getFilterExpression_nonempty specFilterClause_not_Nil)
  qed
qed

lemma whereExpressionOf_spec: "whereExpressionOf fs = specWhereClause fs"
  by (simp add: whereExpressionOf_def specWhereClause_def compact_getFilterExpression Let_def
      split: list.split)

lemma whereExpressionOf_Nil [simp]: "whereExpressionOf [] = []"
  by (simp add: whereExpressionOf_def)

lemma toUpperCase_eq_Nil_iff [simp]: "toUpperCase a = [] \<longleftrightarrow> a = []"
  by (simp add: toUpperCase_def)

lemma allFiltersEmpty_iff:
  "allFiltersEmpty m \<longleftrightarrow> \<not> list_ex (\<lambda>f. attributeElements f \<noteq> []) (measureFilters m)"
  by (simp add: allFiltersEmpty_def list_all_iff list_ex_iff)

section \<open>Facts about the identifier generator\<close>

lemma getGeneratedMetricIdentifier_shape:
  assumes "expressionCreator m = Inr e"
  shows "getGeneratedMetricIdentifier m agg expressionCreator hasher =
     Inr (mtype m @ str ''_''
          @ tpl (at_index (split_on (uc CHR ''/'') (objectUri m)) 3) @ str ''_''
          @ tpl (at_index (split_on (uc CHR ''/'') (objectUri m)) 5)
          @ str ''.generated.'' @ hasher e
          @ (if list_ex (\<lambda>x. attributeElements x \<noteq> []) (measureFilters m)
             then str ''_filtered'' else str '''')
          @ str ''_'' @ agg)"
proof -
  have "(measureFilters m = [] \<or> allFiltersEmpty m)
      = (\<not> list_ex (\<lambda>x. attributeElements x \<noteq> []) (measureFilters m))"
    by (auto simp: allFiltersEmpty_iff)
  with assms show ?thesis
    by (simp add: getGeneratedMetricIdentifier_def Let_def)
qed

lemma getGeneratedMetricIdentifier_error:
  "expressionCreator m = Inl err \<Longrightarrow>
   getGeneratedMetricIdentifier m agg expressionCreator hasher = Inl err"
  by (simp add: getGeneratedMetricIdentifier_def Let_def)

lemma getGeneratedMetricExpression_cong:
  assumes "objectUri m = objectUri m'" "aggregation m = aggregation m'"
    "measureFilters m = measureFilters m'"
  shows "getGeneratedMetricExpression m = getGeneratedMetricExpression m'"
  using assms by (simp add: getGeneratedMetricExpression_def)

lemma split_on_example:
  "split_on (uc CHR ''/'') (str ''/gdc/md/p1/obj/5'')
     = [str '''', str ''gdc'', str ''md'', str ''p1'', str ''obj'', str ''5'']"
  by (simp add: str_def)

section \<open>Facts about the construction strategies\<close>

lemma createDerivedMetric_result:
  "\<exists>ident. createDerivedMetric md5 m b i =
     Inr \<lparr>element = Some ident,
          defn = Some \<lparr>def_identifier = ident,
                       def_expression = getGeneratedMetricExpression m,
                       def_title = getBaseMetricTitle (title m),
                       def_format = format m\<rparr>,
          item_sort = getMetricSort (msort m) False,
          meta = Some \<lparr>measureIndex = i, meta_isPoP = None\<rparr>\<rparr>"
  by (simp add: createDerivedMetric_def getGeneratedMetricIdentifier_shape Let_def)

lemma first_Cons [simp]: "first (x # xs) = Some x"
  by (simp add: first_def)

lemma first_Nil [simp]: "first [] = None"
  by (simp add: first_def)

lemma getPercentMetricExpression_Some:
  "getPercentMetricExpression (Some c) m =
     Inr (str ''SELECT (''
          @ (if isDerived m then getGeneratedMetricExpression (m\<lparr>measureFilters := []\<rparr>)
             else str ''SELECT ['' @ objectUri m @ str '']'')
          @ whereExpressionOf (measureFilters m)
          @ str '') / (''
          @ (if isDerived m then getGeneratedMetricExpression (m\<lparr>measureFilters := []\<rparr>)
             else str ''SELECT ['' @ objectUri m @ str '']'')
          @ str '' BY ALL ['' @ tpl (cat_attribute c) @ str '']''
          @ whereExpressionOf (measureFilters m) @ str '')'')"
  by (simp add: getPercentMetricExpression_def Let_def)

lemma createContributionMetric_no_category:
  "categories b = [] \<Longrightarrow> createContributionMetric md5 m b i = Inl TypeError"
  by (simp add: createContributionMetric_def getCategories_def
      getPercentMetricExpression_def getGeneratedMetricIdentifier_error Let_def)

lemma createContributionMetric_result:
  assumes "categories b = c # cs"
  shows "\<exists>ident e. getPercentMetricExpression (Some c) m = Inr e \<and>
     createContributionMetric md5 m b i =
       Inr \<lparr>element = Some ident,
            defn = Some \<lparr>def_identifier = ident,
                         def_expression = e,
                         def_title = getBaseMetricTitle (title m),
                         def_format = CONTRIBUTION_METRIC_FORMAT\<rparr>,
            item_sort = getMetricSort (msort m) False,
            meta = Some \<lparr>measureIndex = i, meta_isPoP = None\<rparr>\<rparr>"
proof -
  obtain e where e: "getPercentMetricExpression (Some c) m = Inr e"
    by (simp add: getPercentMetricExpression_Some)
  with assms show ?thesis
    by (simp add: createContributionMetric_def getCategories_def
        getGeneratedMetricIdentifier_shape Let_def)
qed

lemma createPoPMetric_result:
  "\<exists>ident base.
     createPoPMetric md5 m b i =
       Inr [popItem ident
              (getPoPExpression (getDate b)
                 (if isDerived m then str ''('' @ getGeneratedMetricExpression m @ str '')''
                  else str ''['' @ objectUri m @ str '']''))
              (getPoPMetricTitle (title m)) (format m) m i,
            base] \<and>
     (if isDerived m then createDerivedMetric md5 m b i = Inr base
      else createPureMetric m b i = base)"
proof (cases "isDerived m")
  case True
  obtain ident where d: "createDerivedMetric md5 m b i =
     Inr \<lparr>element = Some ident,
          defn = Some \<lparr>def_identifier = ident,
                       def_expression = getGeneratedMetricExpression m,
                       def_title = getBaseMetricTitle (title m),
                       def_format = format m\<rparr>,
          item_sort = getMetricSort (msort m) False,
          meta = Some \<lparr>measureIndex = i, meta_isPoP = None\<rparr>\<rparr>"
    using createDerivedMetric_result by blast
  obtain pid where "getGeneratedMetricIdentifier m (str ''pop'')
      (\<lambda>i. Inr (getPoPExpression (getDate b)
                 (str ''('' @ getGeneratedMetricExpression m @ str '')'')))
      (getGeneratedMetricHash md5 (getPoPMetricTitle (title m)) (format m)) = Inr pid"
    by (simp add: getGeneratedMetricIdentifier_shape)
  with True d show ?thesis
    by (auto simp add: createPoPMetric_def definitionExpression_def tpl_def Let_def)
next
  case False
  obtain pid where "getGeneratedMetricIdentifier m (str ''pop'')
      (\<lambda>i. Inr (getPoPExpression (getDate b) (str ''['' @ objectUri m @ str '']'')))
      (getGeneratedMetricHash md5 (getPoPMetricTitle (title m)) (format m)) = Inr pid"
    by (simp add: getGeneratedMetricIdentifier_shape)
  with False show ?thesis
    by (auto simp add: createPoPMetric_def Let_def)
qed

lemma createContributionPoPMetric_no_category:
  "categories b = [] \<Longrightarrow> createContributionPoPMetric md5 m b i = Inl TypeError"
  by (simp add: createContributionPoPMetric_def createContributionMetric_no_category Let_def)

lemma createContributionPoPMetric_result:
  assumes "categories b = c # cs"
  shows "\<exists>ident e base.
     getPercentMetricExpression (Some c) m = Inr e \<and>
     createContributionMetric md5 m b i = Inr base \<and>
     createContributionPoPMetric md5 m b i =
       Inr [popItem ident (getPoPExpression (getDate b) (str ''('' @ e @ str '')''))
              (getPoPMetricTitle (title m)) CONTRIBUTION_METRIC_FORMAT m i,
            base]"
proof -
  obtain ident e where e: "getPercentMetricExpression (Some c) m = Inr e"
    and d: "createContributionMetric md5 m b i =
       Inr \<lparr>element = Some ident,
            defn = Some \<lparr>def_identifier = ident,
                         def_expression = e,
                         def_title = getBaseMetricTitle (title m),
                         def_format = CONTRIBUTION_METRIC_FORMAT\<rparr>,
            item_sort = getMetricSort (msort m) False,
            meta = Some \<lparr>measureIndex = i, meta_isPoP = None\<rparr>\<rparr>"
    using createContributionMetric_result [OF assms] by blast
  obtain pid where "getGeneratedMetricIdentifier m (str ''pop'')
      (\<lambda>i. Inr (getPoPExpression (getDate b) (str ''('' @ e @ str '')'')))
      (getGeneratedMetricHash md5 (getPoPMetricTitle (title m)) CONTRIBUTION_METRIC_FORMAT)
      = Inr pid"
    by (simp add: getGeneratedMetricIdentifier_shape)
  with e d show ?thesis
    by (auto simp add: createContributionPoPMetric_def definitionExpression_def tpl_def Let_def)
qed

section \<open>Facts about the ordering\<close>

lemma first_compact:
  "first (compact vs) = (case find truthy vs of None \<Rightarrow> None | Some v \<Rightarrow> v)"
proof (induction vs)
  case Nil
  show ?case by (simp add: first_def)
next
  case (Cons v vs)
  show ?case
  proof (cases v)
    case None
    with Cons show ?thesis by (simp add: truthy_def)
  next
    case (Some s)
    with Cons show ?thesis by (cases "s = []") (simp_all add: truthy_def first_def)
  qed
qed

section \<open>Facts about the assembler\<close>

lemma createMetrics_revenue:
  "createMetrics md5 b [revenue] 0 =
     Inr [\<lparr>element = Some (str ''/gdc/md/p1/obj/5''), defn = None, item_sort = None,
           meta = Some \<lparr>measureIndex = 0, meta_isPoP = None\<rparr>\<rparr>]"
  by (simp add: getMetricFactory_revenue callFactory_def single_def createPureMetric_def)
     (simp add: revenue_def)

lemma compile_revenue:
  "mdToExecutionConfiguration sortDefs md5 \<lparr>buckets = revenueBucket, vtype = vt\<rparr> opts =
     Inr \<lparr>columns = [str ''/gdc/md/p1/obj/5''],
          orderBy = (if vt = Some (str ''bar'')
                     then [\<lparr>column = Some (str ''/gdc/md/p1/obj/5''),
                            direction = Some (str ''desc'')\<rparr>]
                     else []),
          definitions = sortDefs [],
          where_clause = [(str ''$and'', AndList [])],
          metricMappings = [\<lparr>mm_element = Some (str ''/gdc/md/p1/obj/5''),
                              mm_measureIndex = Some 0, mm_isPoP = None\<rparr>]\<rparr>"
  by (simp add: mdToExecutionConfiguration_def revenueBucket_def createMetrics_revenue
      getCategories_def getFilters_def categoryToElement_def getOrderBy_def getWhere_def
      toMetricMapping_def truthy_def first_def Let_def
      del: createMetrics.simps)

section \<open>Facts about the store\<close>

lemma at_index_append:
  "at_index h r = Some x \<Longrightarrow> at_index (h @ e) r = Some x"
  by (auto simp: at_index_def nth_append split: if_splits)

lemma at_index_less: "at_index h r = Some x \<Longrightarrow> r < length h"
  by (auto simp: at_index_def split: if_splits)

lemma at_index_length_append [simp]: "at_index (h @ x # e) (length h) = Some x"
  by (simp add: at_index_def)

lemma at_index_update_other: "x \<noteq> b \<Longrightarrow> at_index (h[b := v]) x = at_index h x"
  by (simp add: at_index_def)

lemma at_index_update_same: "b < length h \<Longrightarrow> at_index (h[b := v]) b = Some v"
  by (simp add: at_index_def)

lemma map_at_index_append:
  assumes "map (at_index h) xs = map (\<lambda>m. Some (g m)) ms"
  shows "map (at_index (h @ e)) xs = map (\<lambda>m. Some (g m)) ms"
proof -
  have "\<forall>x \<in> set xs. at_index (h @ e) x = at_index h x"
  proof
    fix x assume "x \<in> set xs"
    then have "at_index h x \<in> set (map (at_index h) xs)" by simp
    then obtain y where "at_index h x = Some y" using assms by auto
    then show "at_index (h @ e) x = at_index h x" by (simp add: at_index_append)
  qed
  then have "map (at_index (h @ e)) xs = map (at_index h) xs" by simp
  with assms show ?thesis by simp
qed

lemma map_at_index_bound:
  assumes "map (at_index h) xs = map (\<lambda>m. Some (g m)) ms"
  shows "list_all (\<lambda>x. x < length h) xs"
proof -
  have "\<forall>x \<in> set xs. x < length h"
  proof
    fix x assume "x \<in> set xs"
    then have "at_index h x \<in> set (map (at_index h) xs)" by simp
    then obtain y where "at_index h x = Some y" using assms by auto
    then show "x < length h" by (rule at_index_less)
  qed
  then show ?thesis by (simp add: list_all_iff)
qed

lemma map_at_index_update:
  assumes "map (at_index h) xs = map f ms" and "b \<notin> set xs"
  shows "map (at_index (h[b := v])) xs = map f ms"
proof -
  have "\<forall>x \<in> set xs. at_index (h[b := v]) x = at_index h x"
    using assms(2) by (metis at_index_update_other)
  then have "map (at_index (h[b := v])) xs = map (at_index h) xs" by simp
  with assms show ?thesis by simp
qed

lemma measure_refs_not_buckets:
  assumes "map (at_index h) xs = map (\<lambda>m. Some (MeasureObject (g m))) ms"
    and "at_index h b = Some (BucketsAt arr cats fs)"
  shows "b \<notin> set xs"
proof
  assume "b \<in> set xs"
  then have "at_index h b \<in> set (map (at_index h) xs)" by simp
  with assms show False by auto
qed

lemma those_map_Some:
  "map f xs = map (\<lambda>y. Some (g y)) ys \<Longrightarrow> those (map f xs) = Some (map g ys)"
proof (induction xs arbitrary: ys)
  case Nil
  then show ?case by simp
next
  case (Cons x xs)
  then obtain y ys' where ys: "ys = y # ys'" by (cases ys) auto
  with Cons.prems have "f x = Some (g y)" and "map f xs = map (\<lambda>y. Some (g y)) ys'"
    by simp_all
  with Cons.IH [of ys'] ys show ?case by simp
qed

lemma measureRefOf_map:
  assumes "map (at_index h) ws = map (\<lambda>r. Some (WrapperOf r)) rs"
  shows "map (measureRefOf h) ws = map (\<lambda>r. Some r) rs"
  using assms
proof (induction ws arbitrary: rs)
  case Nil
  then show ?case by simp
next
  case (Cons w ws)
  then obtain r rs' where "rs = r # rs'" by (cases rs) auto
  with Cons show ?case by (simp add: measureRefOf_def)
qed

lemma measureAt_map:
  assumes "map (at_index h) rs = map (\<lambda>m. Some (MeasureObject (g m))) ms"
  shows "map (measureAt h) rs = map (\<lambda>m. Some (g m)) ms"
  using assms
proof (induction rs arbitrary: ms)
  case Nil
  then show ?case by simp
next
  case (Cons r rs)
  then obtain m ms' where "ms = m # ms'" by (cases ms) auto
  with Cons show ?case by (simp add: measureAt_def)
qed

lemma readMdObject_holds:
  assumes "holdsMdObject h a b arr ws rs ms cats fs vt"
  shows "readMdObject h a =
    Some \<lparr>buckets = \<lparr>measureList = ms, categories = cats, filters = fs\<rparr>, vtype = vt\<rparr>"
proof -
  from assms have w: "map (at_index h) ws = map (\<lambda>r. Some (WrapperOf r)) rs"
    and r: "map (at_index h) rs = map (\<lambda>m. Some (MeasureObject (id m))) ms"
    by (simp_all add: holdsMdObject_def)
  have "those (map (measureRefOf h) ws) = Some (map id rs)"
    by (rule those_map_Some) (simp add: measureRefOf_map [OF w])
  moreover have "those (map (measureAt h) rs) = Some (map id ms)"
    by (rule those_map_Some) (simp add: measureAt_map [OF r])
  ultimately show ?thesis
    using assms by (simp add: readMdObject_def holdsMdObject_def)
qed

lemma wrapMeasures_eq:
  "wrapMeasures h rs = (h @ map WrapperOf rs, [length h ..< length h + length rs])"
proof (induction rs arbitrary: h)
  case Nil
  show ?case by simp
next
  case (Cons r rs)
  have "[length h ..< length h + Suc (length rs)]
      = length h # [Suc (length h) ..< Suc (length h) + length rs]"
    by (subst upt_rec) simp
  then show ?case
    by (simp add: alloc_def Cons.IH)
qed

lemma map_at_index_wrappers:
  "map (at_index (h @ map WrapperOf rs @ e)) [length h ..< length h + length rs]
     = map (\<lambda>r. Some (WrapperOf r)) rs"
proof (rule nth_equalityI)
  show "length (map (at_index (h @ map WrapperOf rs @ e)) [length h ..< length h + length rs])
      = length (map (\<lambda>r. Some (WrapperOf r)) rs)"
    by simp
next
  fix k
  assume "k < length (map (at_index (h @ map WrapperOf rs @ e)) [length h ..< length h + length rs])"
  then have k: "k < length rs" by simp
  then show "map (at_index (h @ map WrapperOf rs @ e)) [length h ..< length h + length rs] ! k
      = map (\<lambda>r. Some (WrapperOf r)) rs ! k"
    by (simp add: at_index_def nth_append)
qed

lemma withOriginalFormat_resolved:
  "needsOriginalFormat m \<Longrightarrow> xhrGet (objectUri m) = Inr fmt \<Longrightarrow>
   m\<lparr>format := (case fmt of None \<Rightarrow> format m | Some f \<Rightarrow> f)\<rparr> = withOriginalFormat xhrGet m"
  by (cases fmt) (simp_all add: withOriginalFormat_def)

lemma withOriginalFormat_unchanged:
  "\<not> needsOriginalFormat m \<Longrightarrow> withOriginalFormat xhrGet m = m"
  by (simp add: withOriginalFormat_def)

lemma resolveFormats_ok:
  assumes "map (at_index h) rs = map (\<lambda>m. Some (MeasureObject m)) ms"
    and "list_all (\<lambda>m. needsOriginalFormat m \<longrightarrow> (\<exists>fmt. xhrGet (objectUri m) = Inr fmt)) ms"
  shows "\<exists>e rs'. resolveFormats xhrGet h rs = Inr (h @ e, rs') \<and>
      length rs' = length ms \<and>
      map (at_index (h @ e)) rs'
        = map (\<lambda>m. Some (MeasureObject (withOriginalFormat xhrGet m))) ms \<and>
      list_all (\<lambda>(m, old, new). if needsOriginalFormat m then length h \<le> new else new = old)
        (zip ms (zip rs rs'))"
  using assms
proof (induction rs arbitrary: h ms)
  case Nil
  then show ?case by simp
next
  case (Cons r rs)
  then obtain m ms' where ms: "ms = m # ms'" by (cases ms) auto
  with Cons.prems have hr: "at_index h r = Some (MeasureObject m)"
    and tl: "map (at_index h) rs = map (\<lambda>m. Some (MeasureObject m)) ms'"
    and ok: "needsOriginalFormat m \<longrightarrow> (\<exists>fmt. xhrGet (objectUri m) = Inr fmt)"
    and oks: "list_all (\<lambda>m. needsOriginalFormat m \<longrightarrow> (\<exists>fmt. xhrGet (objectUri m) = Inr fmt)) ms'"
    by simp_all
  from hr have mr: "measureAt h r = Some m" by (simp add: measureAt_def)
  show ?case
  proof (cases "needsOriginalFormat m")
    case True
    with ok obtain fmt where fmt: "xhrGet (objectUri m) = Inr fmt" by blast
    define obj where "obj = MeasureObject (withOriginalFormat xhrGet m)"
    have tl1: "map (at_index (h @ [obj])) rs = map (\<lambda>m. Some (MeasureObject m)) ms'"
      by (rule map_at_index_append [OF tl])
    from Cons.IH [OF tl1 oks] obtain e rs' where
      rf: "resolveFormats xhrGet (h @ [obj]) rs = Inr ((h @ [obj]) @ e, rs')"
      and len: "length rs' = length ms'"
      and vals: "map (at_index ((h @ [obj]) @ e)) rs'
        = map (\<lambda>m. Some (MeasureObject (withOriginalFormat xhrGet m))) ms'"
      and fresh: "list_all (\<lambda>(m, old, new). if needsOriginalFormat m
          then length (h @ [obj]) \<le> new else new = old) (zip ms' (zip rs rs'))"
      by blast
    have fresh': "list_all (\<lambda>(m, old, new). if needsOriginalFormat m
          then length h \<le> new else new = old) (zip ms' (zip rs rs'))"
      using fresh by (auto simp: list_all_iff)
    have "resolveFormats xhrGet h (r # rs) = Inr (h @ (obj # e), length h # rs')"
      using mr True fmt rf
      by (simp add: alloc_def withOriginalFormat_resolved [where xhrGet = xhrGet, OF True fmt] obj_def)
    moreover have "map (at_index (h @ (obj # e))) (length h # rs')
        = map (\<lambda>m. Some (MeasureObject (withOriginalFormat xhrGet m))) ms"
      using vals by (simp add: ms obj_def)
    moreover have "list_all (\<lambda>(m, old, new). if needsOriginalFormat m
          then length h \<le> new else new = old) (zip ms (zip (r # rs) (length h # rs')))"
      using fresh' True by (simp add: ms)
    ultimately show ?thesis using len ms by auto
  next
    case False
    from Cons.IH [OF tl oks] obtain e rs' where
      rf: "resolveFormats xhrGet h rs = Inr (h @ e, rs')"
      and len: "length rs' = length ms'"
      and vals: "map (at_index (h @ e)) rs'
        = map (\<lambda>m. Some (MeasureObject (withOriginalFormat xhrGet m))) ms'"
      and fresh: "list_all (\<lambda>(m, old, new). if needsOriginalFormat m
          then length h \<le> new else new = old) (zip ms' (zip rs rs'))"
      by blast
    have "resolveFormats xhrGet h (r # rs) = Inr (h @ e, r # rs')"
      using mr False rf by simp
    moreover have "map (at_index (h @ e)) (r # rs')
        = map (\<lambda>m. Some (MeasureObject (withOriginalFormat xhrGet m))) ms"
      using vals at_index_append [OF hr, of e]
      by (simp add: ms withOriginalFormat_unchanged [OF False])
    moreover have "list_all (\<lambda>(m, old, new). if needsOriginalFormat m
          then length h \<le> new else new = old) (zip ms (zip (r # rs) (r # rs')))"
      using fresh False by (simp add: ms)
    ultimately show ?thesis using len ms by auto
  qed
qed

lemma resolveFormats_rejected:
  assumes "map (at_index h) rs = map (\<lambda>m. Some (MeasureObject m)) ms"
    and "list_ex (\<lambda>m. needsOriginalFormat m \<and> (\<exists>err. xhrGet (objectUri m) = Inl err)) ms"
  shows "\<exists>err. resolveFormats xhrGet h rs = Inl err"
  using assms
proof (induction rs arbitrary: h ms)
  case Nil
  then show ?case by simp
next
  case (Cons r rs)
  then obtain m ms' where ms: "ms = m # ms'" by (cases ms) auto
  with Cons.prems have hr: "at_index h r = Some (MeasureObject m)"
    and tl: "map (at_index h) rs = map (\<lambda>m. Some (MeasureObject m)) ms'"
    by simp_all
  from hr have mr: "measureAt h r = Some m" by (simp add: measureAt_def)
  show ?case
  proof (cases "needsOriginalFormat m")
    case True
    show ?thesis
    proof (cases "xhrGet (objectUri m)")
      case (Inl err)
      with mr True show ?thesis by simp
    next
      case (Inr fmt)
      with Cons.prems(2) ms True
      have ex: "list_ex (\<lambda>m. needsOriginalFormat m \<and> (\<exists>err. xhrGet (objectUri m) = Inl err)) ms'"
        by auto
      define obj where
        "obj = MeasureObject (m\<lparr>format := (case fmt of None \<Rightarrow> format m | Some f \<Rightarrow> f)\<rparr>)"
      have tl1: "map (at_index (h @ [obj])) rs = map (\<lambda>m. Some (MeasureObject m)) ms'"
        by (rule map_at_index_append [OF tl])
      from Cons.IH [OF tl1 ex] obtain err where
        "resolveFormats xhrGet (h @ [obj]) rs = Inl err" by blast
      with mr True Inr show ?thesis by (simp add: alloc_def obj_def)
    qed
  next
    case False
    with Cons.prems(2) ms
    have ex: "list_ex (\<lambda>m. needsOriginalFormat m \<and> (\<exists>err. xhrGet (objectUri m) = Inl err)) ms'"
      by auto
    from Cons.IH [OF tl ex] obtain err where "resolveFormats xhrGet h rs = Inl err" by blast
    with mr False show ?thesis by simp
  qed
qed

section \<open>Title truncator: properties\<close>

lemma length_POP_SUFFIX: "length POP_SUFFIX = 16"
  by (simp add: POP_SUFFIX_def)

lemma length_getMetricTitle_le:
  assumes "length suffix \<le> 253"
  shows "length (getMetricTitle suffix t) \<le> 255"
  using assms
  by (auto simp add: getMetricTitle_def MAX_TITLE_LENGTH_def substring0_def Let_def min_def)

lemma getMetricTitle_short:
  assumes "int (length t) \<le> 255 - int (length suffix)"
  shows "getMetricTitle suffix t = t @ suffix"
  using assms
  by (simp add: getMetricTitle_def MAX_TITLE_LENGTH_def Let_def)

text \<open>
  C6. The metric-title builder is used with two suffixes: the empty one
  (\<open>getBaseMetricTitle\<close>) and \<open>POP_SUFFIX\<close> (\<open>getPoPMetricTitle\<close>). For both, and for
  every title, the output has at most 255 code units; and a title of at most
  255 minus the suffix length code units comes back as the title followed by the
  suffix, with nothing inserted.
\<close>

theorem C6_title_length_bound:
  "suffix \<in> {str '''', POP_SUFFIX} \<Longrightarrow>
     length (getMetricTitle suffix t) \<le> 255 \<and>
     (int (length t) \<le> 255 - int (length suffix) \<longrightarrow>
        getMetricTitle suffix t = t @ suffix)"
proof -
  assume "suffix \<in> {str '''', POP_SUFFIX}"
  then have "length suffix \<le> 253"
    by (auto simp: length_POP_SUFFIX)
  then show ?thesis
    by (simp add: length_getMetricTitle_le getMetricTitle_short)
qed

theorem C6_title_length_bound_witness:
  "POP_SUFFIX \<in> {str '''', POP_SUFFIX} \<and>
   length (getMetricTitle POP_SUFFIX (replicate 300 (uc CHR ''a''))) \<le> 255 \<and>
   int (length (str ''Revenue'')) \<le> 255 - int (length POP_SUFFIX) \<and>
   getMetricTitle POP_SUFFIX (str ''Revenue'') = str ''Revenue - previous year''"
proof -
  have m: "POP_SUFFIX \<in> {str '''', POP_SUFFIX}" by simp
  have short: "int (length (str ''Revenue'')) \<le> 255 - int (length POP_SUFFIX)"
    by (simp add: length_POP_SUFFIX)
  have "getMetricTitle POP_SUFFIX (str ''Revenue'') = str ''Revenue'' @ POP_SUFFIX"
    using C6_title_length_bound [OF m, of "str ''Revenue''"] short by blast
  then have "getMetricTitle POP_SUFFIX (str ''Revenue'') = str ''Revenue - previous year''"
    by (simp add: POP_SUFFIX_def str_def)
  with m short C6_title_length_bound [OF m, of "replicate 300 (uc CHR ''a'')"]
  show ?thesis by blast
qed

text \<open>
  C7 (as stated, refuted). A title of 256 code units that ends in a closing parenthesis,
  with the empty suffix: the builder keeps the first 253 code units and appends the
  ellipsis followed by the parenthesis. The output is neither the first 253 nor the first
  252 code units followed by the parenthesis and then the ellipsis.
\<close>

theorem C7_paren_order_counterexample:
  "getMetricTitle (str '''') (replicate 255 (uc CHR ''a'') @ [uc CHR '')''])
     = replicate 253 (uc CHR ''a'') @ [ELLIPSIS, uc CHR '')''] \<and>
   getMetricTitle (str '''') (replicate 255 (uc CHR ''a'') @ [uc CHR '')''])
     \<noteq> replicate 253 (uc CHR ''a'') @ [uc CHR '')'', ELLIPSIS] \<and>
   getMetricTitle (str '''') (replicate 255 (uc CHR ''a'') @ [uc CHR '')''])
     \<noteq> replicate 252 (uc CHR ''a'') @ [uc CHR '')'', ELLIPSIS]"
  by (simp add: getMetricTitle_def MAX_TITLE_LENGTH_def substring0_def Let_def
      append_eq_append_conv_if)

text \<open>
  C7 (amended). For every title that exceeds the budget (its length is more than 255
  minus the suffix length) and whose last character is a closing parenthesis, the output
  is the first 255 - suffix length - 2 code units of the title, then the ellipsis, then
  the closing parenthesis, then the suffix. A title over budget that does not end in a
  parenthesis keeps 255 - suffix length - 1 code units, so the parenthesis case keeps one
  code unit less.
\<close>

theorem C7_paren_truncation:
  "t \<noteq> [] \<Longrightarrow> int (length t) > 255 - int (length suffix) \<Longrightarrow>
   getMetricTitle suffix t =
     (if last t = uc CHR '')''
      then take (253 - length suffix) t @ [ELLIPSIS, uc CHR '')''] @ suffix
      else take (254 - length suffix) t @ [ELLIPSIS] @ suffix)"
proof -
  assume ne: "t \<noteq> []" and over: "int (length t) > 255 - int (length suffix)"
  have a: "nat (253 - int (length suffix)) = 253 - length suffix" by arith
  have b: "nat (254 - int (length suffix)) = 254 - length suffix" by arith
  from ne over show ?thesis
    by (simp add: getMetricTitle_def MAX_TITLE_LENGTH_def substring0_def Let_def a b)
qed

theorem C7_paren_truncation_witness:
  "replicate 255 (uc CHR ''a'') @ [uc CHR '')''] \<noteq> [] \<and>
   int (length (replicate 255 (uc CHR ''a'') @ [uc CHR '')''])) > 255 - int (length POP_SUFFIX) \<and>
   getMetricTitle POP_SUFFIX (replicate 255 (uc CHR ''a'') @ [uc CHR '')''])
     = replicate 237 (uc CHR ''a'') @ [ELLIPSIS, uc CHR '')''] @ POP_SUFFIX"
proof -
  have ne: "replicate 255 (uc CHR ''a'') @ [uc CHR '')''] \<noteq> []" by simp
  have over: "int (length (replicate 255 (uc CHR ''a'') @ [uc CHR '')'']))
      > 255 - int (length POP_SUFFIX)"
    by (simp add: length_POP_SUFFIX)
  show ?thesis
    using C7_paren_truncation [OF ne over] ne over
    by (simp add: length_POP_SUFFIX)
qed

section \<open>Claims about the dispatcher\<close>

text \<open>
  C1. The rule table holds the five (predicate-set, strategy) pairs in the order
  (isPoP and isContribution), (isPoP), (isContribution), (isDerived),
  (isCalculatedMeasure). Dispatch returns the strategy of the first pair of the table
  whose every predicate holds on the measure. For a measure whose type is one of
  \<^verbatim>\<open>fact\<close>, \<^verbatim>\<open>attribute\<close>, \<^verbatim>\<open>metric\<close>, dispatch returns a strategy (it does not
  fail), the one this priority order gives, and no other.
\<close>

theorem C1_dispatch_total_first_match:
  "rules =
     [([isPoP, isContribution], CreateContributionPoPMetric),
      ([isPoP], CreatePoPMetric),
      ([isContribution], CreateContributionMetric),
      ([isDerived], CreateDerivedMetric),
      ([isCalculatedMeasure], CreatePureMetric)] \<and>
   getMetricFactory m =
     (case find (\<lambda>r. list_all (\<lambda>test. test m) (fst r)) rules of
        None \<Rightarrow> Inl InvariantViolation
      | Some r \<Rightarrow> Inr (snd r)) \<and>
   (mtype m \<in> {str ''fact'', str ''attribute'', str ''metric''} \<longrightarrow>
      getMetricFactory m =
        Inr (if isPoP m \<and> isContribution m then CreateContributionPoPMetric
             else if isPoP m then CreatePoPMetric
             else if isContribution m then CreateContributionMetric
             else if isDerived m then CreateDerivedMetric
             else CreatePureMetric) \<and>
      (\<exists>!f. getMetricFactory m = Inr f))"
proof (intro conjI impI)
  show "rules =
     [([isPoP, isContribution], CreateContributionPoPMetric),
      ([isPoP], CreatePoPMetric),
      ([isContribution], CreateContributionMetric),
      ([isDerived], CreateDerivedMetric),
      ([isCalculatedMeasure], CreatePureMetric)]"
    by (rule rules_table)
next
  show "getMetricFactory m =
     (case find (\<lambda>r. list_all (\<lambda>test. test m) (fst r)) rules of
        None \<Rightarrow> Inl InvariantViolation
      | Some r \<Rightarrow> Inr (snd r))"
    unfolding getMetricFactory_def match_first
    by (cases "find (\<lambda>r. list_all (\<lambda>test. test m) (fst r)) rules") simp_all
next
  assume recognised: "mtype m \<in> {str ''fact'', str ''attribute'', str ''metric''}"
  then have "isDerived m \<or> isCalculatedMeasure m"
    by (auto simp: isDerived_def isCalculatedMeasure_def)
  then show chosen: "getMetricFactory m =
        Inr (if isPoP m \<and> isContribution m then CreateContributionPoPMetric
             else if isPoP m then CreatePoPMetric
             else if isContribution m then CreateContributionMetric
             else if isDerived m then CreateDerivedMetric
             else CreatePureMetric)"
    by (auto simp: getMetricFactory_cascade)
  then show "\<exists>!f. getMetricFactory m = Inr f"
    by simp
qed

theorem C1_dispatch_total_first_match_witness:
  "mtype revenue \<in> {str ''fact'', str ''attribute'', str ''metric''} \<and>
   getMetricFactory revenue = Inr CreatePureMetric \<and>
   getMetricFactory (revenue\<lparr>showPoP := True, showInPercent := True\<rparr>)
     = Inr CreateContributionPoPMetric \<and>
   getMetricFactory (revenue\<lparr>mtype := str ''fact'', showPoP := True\<rparr>) = Inr CreatePoPMetric"
proof -
  have r: "mtype revenue \<in> {str ''fact'', str ''attribute'', str ''metric''}"
    and r2: "mtype (revenue\<lparr>showPoP := True, showInPercent := True\<rparr>)
       \<in> {str ''fact'', str ''attribute'', str ''metric''}"
    and r3: "mtype (revenue\<lparr>mtype := str ''fact'', showPoP := True\<rparr>)
       \<in> {str ''fact'', str ''attribute'', str ''metric''}"
    by (simp_all add: revenue_def)
  note c1 = C1_dispatch_total_first_match [THEN conjunct2, THEN conjunct2, THEN mp, THEN conjunct1]
  have "getMetricFactory revenue = Inr CreatePureMetric"
    using c1 [OF r]
    by (simp add: isPoP_def isContribution_def isDerived_def allFiltersEmpty_def revenue_def)
  moreover have "getMetricFactory (revenue\<lparr>showPoP := True, showInPercent := True\<rparr>)
     = Inr CreateContributionPoPMetric"
    using c1 [OF r2]
    by (simp add: isPoP_def isContribution_def)
  moreover have "getMetricFactory (revenue\<lparr>mtype := str ''fact'', showPoP := True\<rparr>)
     = Inr CreatePoPMetric"
    using c1 [OF r3]
    by (simp add: isPoP_def isContribution_def revenue_def)
  ultimately show ?thesis using r by blast
qed

section \<open>Claims about the construction strategies\<close>

lemma getPoPMetricTitle_cases:
  "(if length t \<le> 239 then getMetricTitle POP_SUFFIX t = t @ str '' - previous year''
    else length (getMetricTitle POP_SUFFIX t) = 255)"
  by (auto simp: getMetricTitle_def MAX_TITLE_LENGTH_def substring0_def Let_def
      length_POP_SUFFIX POP_SUFFIX_def min_def)

lemma meta_popItem [simp]:
  "meta (popItem ident e t f m i) = Some \<lparr>measureIndex = i, meta_isPoP = Some True\<rparr>"
  by (simp add: popItem_def)

lemma defn_popItem [simp]:
  "defn (popItem ident e t f m i) =
     Some \<lparr>def_identifier = ident, def_expression = e, def_title = t, def_format = f\<rparr>"
  by (simp add: popItem_def)

lemma callFactory_pop:
  "\<exists>pop base. callFactory md5 CreatePoPMetric m b i = Inr [pop, base] \<and>
     meta pop = Some \<lparr>measureIndex = i, meta_isPoP = Some True\<rparr> \<and>
     meta base = Some \<lparr>measureIndex = i, meta_isPoP = None\<rparr> \<and>
     map_option def_title (defn pop) = Some (getMetricTitle POP_SUFFIX (title m)) \<and>
     callFactory md5 (if isDerived m then CreateDerivedMetric else CreatePureMetric) m b i
       = Inr [base]"
proof -
  obtain ident base where r: "createPoPMetric md5 m b i =
       Inr [popItem ident
              (getPoPExpression (getDate b)
                 (if isDerived m then str ''('' @ getGeneratedMetricExpression m @ str '')''
                  else str ''['' @ objectUri m @ str '']''))
              (getPoPMetricTitle (title m)) (format m) m i,
            base]"
    and bs: "if isDerived m then createDerivedMetric md5 m b i = Inr base
             else createPureMetric m b i = base"
    using createPoPMetric_result by blast
  have mb: "meta base = Some \<lparr>measureIndex = i, meta_isPoP = None\<rparr>"
  proof (cases "isDerived m")
    case True
    with bs createDerivedMetric_result [of md5 m b i] show ?thesis by auto
  next
    case False
    with bs show ?thesis by (auto simp: createPureMetric_def)
  qed
  have "callFactory md5 (if isDerived m then CreateDerivedMetric else CreatePureMetric) m b i
       = Inr [base]"
    using bs by (simp add: callFactory_def single_def)
  with r mb show ?thesis
    by (simp add: callFactory_def getPoPMetricTitle_def)
qed

lemma callFactory_contributionPoP:
  assumes "categories b \<noteq> []"
  shows "\<exists>pop base. callFactory md5 CreateContributionPoPMetric m b i = Inr [pop, base] \<and>
     meta pop = Some \<lparr>measureIndex = i, meta_isPoP = Some True\<rparr> \<and>
     meta base = Some \<lparr>measureIndex = i, meta_isPoP = None\<rparr> \<and>
     map_option def_title (defn pop) = Some (getMetricTitle POP_SUFFIX (title m)) \<and>
     callFactory md5 CreateContributionMetric m b i = Inr [base]"
proof -
  from assms obtain c cs where cat: "categories b = c # cs"
    by (cases "categories b") auto
  obtain ident e base where
    base: "createContributionMetric md5 m b i = Inr base"
    and r: "createContributionPoPMetric md5 m b i =
       Inr [popItem ident (getPoPExpression (getDate b) (str ''('' @ e @ str '')''))
              (getPoPMetricTitle (title m)) CONTRIBUTION_METRIC_FORMAT m i,
            base]"
    using createContributionPoPMetric_result [OF cat] by blast
  have mb: "meta base = Some \<lparr>measureIndex = i, meta_isPoP = None\<rparr>"
    using base createContributionMetric_result [OF cat, of m md5 i] by auto
  from base have "callFactory md5 CreateContributionMetric m b i = Inr [base]"
    by (simp add: callFactory_def single_def)
  with r mb show ?thesis
    by (simp add: callFactory_def getPoPMetricTitle_def)
qed

lemma callFactory_single:
  assumes "f = CreateContributionMetric \<and> categories b \<noteq> [] \<or> f = CreateDerivedMetric
    \<or> f = CreatePureMetric"
  shows "\<exists>d. callFactory md5 f m b i = Inr [d] \<and>
    meta d = Some \<lparr>measureIndex = i, meta_isPoP = None\<rparr>"
proof -
  consider (c) "f = CreateContributionMetric" "categories b \<noteq> []"
    | (d) "f = CreateDerivedMetric" | (p) "f = CreatePureMetric"
    using assms by blast
  then show ?thesis
  proof cases
    case c
    then obtain c' cs where cat: "categories b = c' # cs"
      by (cases "categories b") auto
    from createContributionMetric_result [OF cat, of m md5 i] c show ?thesis
      by (auto simp: callFactory_def single_def)
  next
    case d
    with createDerivedMetric_result [of md5 m b i] show ?thesis
      by (auto simp: callFactory_def single_def)
  next
    case p
    then show ?thesis
      by (simp add: callFactory_def single_def createPureMetric_def)
  qed
qed

lemma callFactory_no_category:
  assumes "categories b = []"
  shows "callFactory md5 CreateContributionPoPMetric m b i = Inl TypeError"
    and "callFactory md5 CreateContributionMetric m b i = Inl TypeError"
  using assms
  by (simp_all add: callFactory_def single_def createContributionPoPMetric_no_category
      createContributionMetric_no_category)

lemma getMetricFactory_revenuePoPPercent:
  "getMetricFactory revenuePoPPercent = Inr CreateContributionPoPMetric"
  by (simp add: getMetricFactory_cascade isPoP_def isContribution_def revenuePoPPercent_def)

text \<open>
  C2 (as stated, refuted). The measure \<open>revenuePoPPercent\<close> has both flags, so it is
  dispatched to the contribution+PoP strategy. In a bucket without category the strategy
  emits no descriptor: reading the first category raises a TypeError, which also ends the
  compilation.
\<close>

theorem C2_no_category_counterexample:
  "getMetricFactory revenuePoPPercent = Inr CreateContributionPoPMetric \<and>
   callFactory id CreateContributionPoPMetric revenuePoPPercent revenuePoPPercentBucket 0
     = Inl TypeError \<and>
   mdToExecutionConfiguration sortDefinitions id
     \<lparr>buckets = revenuePoPPercentBucket, vtype = None\<rparr> \<lparr>removeDateItems = False\<rparr>
     = Inl TypeError"
proof -
  have c: "callFactory id CreateContributionPoPMetric revenuePoPPercent
      revenuePoPPercentBucket 0 = Inl TypeError"
    by (rule callFactory_no_category) (simp add: revenuePoPPercentBucket_def)
  then have "createMetrics id revenuePoPPercentBucket [revenuePoPPercent] 0 = Inl TypeError"
    by (simp add: getMetricFactory_revenuePoPPercent)
  then have "mdToExecutionConfiguration sortDefinitions id
     \<lparr>buckets = revenuePoPPercentBucket, vtype = None\<rparr> \<lparr>removeDateItems = False\<rparr>
     = Inl TypeError"
    by (simp add: mdToExecutionConfiguration_def revenuePoPPercentBucket_def
        del: createMetrics.simps)
  with c getMetricFactory_revenuePoPPercent show ?thesis by blast
qed

text \<open>
  C2 (amended). The PoP strategy always emits exactly two descriptors, and the
  contribution+PoP strategy does so whenever the bucket has a category: the PoP wrapper
  followed by the underlying base metric, which is the descriptor the derived, pure or
  contribution strategy emits for the same measure. Both carry the measure's index; the
  wrapper is flagged \<^verbatim>\<open>isPoP: true\<close> and the base metric has no \<^verbatim>\<open>isPoP\<close>. The wrapper's
  title is the title builder's output for the suffix \<^verbatim>\<open> - previous year\<close>: the title
  followed by the suffix when the title has at most 239 characters, a truncated string of
  255 characters otherwise. The contribution strategy (with a category), the derived
  strategy and the pure strategy emit exactly one descriptor, without \<^verbatim>\<open>isPoP\<close>. In a
  bucket without category the two contribution strategies raise a TypeError.
\<close>

theorem C2_descriptors_per_strategy:
  "(case f of
      CreatePoPMetric \<Rightarrow>
        (\<exists>pop base. callFactory md5 f m b i = Inr [pop, base] \<and>
           meta pop = Some \<lparr>measureIndex = i, meta_isPoP = Some True\<rparr> \<and>
           meta base = Some \<lparr>measureIndex = i, meta_isPoP = None\<rparr> \<and>
           map_option def_title (defn pop) = Some (getMetricTitle POP_SUFFIX (title m)) \<and>
           callFactory md5 (if isDerived m then CreateDerivedMetric else CreatePureMetric) m b i
             = Inr [base])
    | CreateContributionPoPMetric \<Rightarrow>
        (if categories b = [] then callFactory md5 f m b i = Inl TypeError
         else (\<exists>pop base. callFactory md5 f m b i = Inr [pop, base] \<and>
           meta pop = Some \<lparr>measureIndex = i, meta_isPoP = Some True\<rparr> \<and>
           meta base = Some \<lparr>measureIndex = i, meta_isPoP = None\<rparr> \<and>
           map_option def_title (defn pop) = Some (getMetricTitle POP_SUFFIX (title m)) \<and>
           callFactory md5 CreateContributionMetric m b i = Inr [base]))
    | CreateContributionMetric \<Rightarrow>
        (if categories b = [] then callFactory md5 f m b i = Inl TypeError
         else (\<exists>d. callFactory md5 f m b i = Inr [d] \<and>
           meta d = Some \<lparr>measureIndex = i, meta_isPoP = None\<rparr>))
    | CreateDerivedMetric \<Rightarrow>
        (\<exists>d. callFactory md5 f m b i = Inr [d] \<and>
           meta d = Some \<lparr>measureIndex = i, meta_isPoP = None\<rparr>)
    | CreatePureMetric \<Rightarrow>
        (\<exists>d. callFactory md5 f m b i = Inr [d] \<and>
           meta d = Some \<lparr>measureIndex = i, meta_isPoP = None\<rparr>)) \<and>
   (if length (title m) \<le> 239
    then getMetricTitle POP_SUFFIX (title m) = title m @ str '' - previous year''
    else length (getMetricTitle POP_SUFFIX (title m)) = 255)"
proof (rule conjI)
  show "(if length (title m) \<le> 239
    then getMetricTitle POP_SUFFIX (title m) = title m @ str '' - previous year''
    else length (getMetricTitle POP_SUFFIX (title m)) = 255)"
    by (rule getPoPMetricTitle_cases)
next
  show "(case f of
      CreatePoPMetric \<Rightarrow>
        (\<exists>pop base. callFactory md5 f m b i = Inr [pop, base] \<and>
           meta pop = Some \<lparr>measureIndex = i, meta_isPoP = Some True\<rparr> \<and>
           meta base = Some \<lparr>measureIndex = i, meta_isPoP = None\<rparr> \<and>
           map_option def_title (defn pop) = Some (getMetricTitle POP_SUFFIX (title m)) \<and>
           callFactory md5 (if isDerived m then CreateDerivedMetric else CreatePureMetric) m b i
             = Inr [base])
    | CreateContributionPoPMetric \<Rightarrow>
        (if categories b = [] then callFactory md5 f m b i = Inl TypeError
         else (\<exists>pop base. callFactory md5 f m b i = Inr [pop, base] \<and>
           meta pop = Some \<lparr>measureIndex = i, meta_isPoP = Some True\<rparr> \<and>
           meta base = Some \<lparr>measureIndex = i, meta_isPoP = None\<rparr> \<and>
           map_option def_title (defn pop) = Some (getMetricTitle POP_SUFFIX (title m)) \<and>
           callFactory md5 CreateContributionMetric m b i = Inr [base]))
    | CreateContributionMetric \<Rightarrow>
        (if categories b = [] then callFactory md5 f m b i = Inl TypeError
         else (\<exists>d. callFactory md5 f m b i = Inr [d] \<and>
           meta d = Some \<lparr>measureIndex = i, meta_isPoP = None\<rparr>))
    | CreateDerivedMetric \<Rightarrow>
        (\<exists>d. callFactory md5 f m b i = Inr [d] \<and>
           meta d = Some \<lparr>measureIndex = i, meta_isPoP = None\<rparr>)
    | CreatePureMetric \<Rightarrow>
        (\<exists>d. callFactory md5 f m b i = Inr [d] \<and>
           meta d = Some \<lparr>measureIndex = i, meta_isPoP = None\<rparr>))"
  proof (cases f)
    case CreateContributionPoPMetric
    then show ?thesis
      using callFactory_contributionPoP [of b md5 m i] callFactory_no_category(1) [of b md5 m i]
      by (cases "categories b = []") simp_all
  next
    case CreatePoPMetric
    then show ?thesis
      using callFactory_pop [of md5 m b i] by simp
  next
    case CreateContributionMetric
    then show ?thesis
      using callFactory_single [of f b md5 m i] callFactory_no_category(2) [of b md5 m i]
      by (cases "categories b = []") simp_all
  next
    case CreateDerivedMetric
    then show ?thesis
      using callFactory_single [of f b md5 m i] by simp
  next
    case CreatePureMetric
    then show ?thesis
      using callFactory_single [of f b md5 m i] by simp
  qed
qed

text \<open>
  The second end-to-end example of the spec: \<open>revenuePoP\<close> in a bucket with a date
  category gives two descriptors with the measure index 0, the first one flagged and
  titled \<^verbatim>\<open>Revenue - previous year\<close>, the second one the pure reference.
\<close>

theorem C2_descriptors_per_strategy_witness:
  "\<exists>pop. callFactory id CreatePoPMetric revenuePoP revenuePoPBucket 0
       = Inr [pop, createPureMetric revenuePoP revenuePoPBucket 0] \<and>
     meta pop = Some \<lparr>measureIndex = 0, meta_isPoP = Some True\<rparr> \<and>
     meta (createPureMetric revenuePoP revenuePoPBucket 0)
       = Some \<lparr>measureIndex = 0, meta_isPoP = None\<rparr> \<and>
     map_option def_title (defn pop) = Some (str ''Revenue - previous year'')"
proof -
  have nd: "\<not> isDerived revenuePoP"
    by (simp add: isDerived_def allFiltersEmpty_def revenuePoP_def revenue_def)
  have t: "title revenuePoP = str ''Revenue''"
    by (simp add: revenuePoP_def revenue_def)
  note c2 = C2_descriptors_per_strategy [where f = CreatePoPMetric and ?md5.0 = id and m = revenuePoP
      and b = revenuePoPBucket and i = 0]
  from c2 [THEN conjunct2] have
    "getMetricTitle POP_SUFFIX (title revenuePoP) = str ''Revenue - previous year''"
    by (simp add: t) (simp add: str_def)
  moreover from c2 [THEN conjunct1] nd obtain pop base where
    "callFactory id CreatePoPMetric revenuePoP revenuePoPBucket 0 = Inr [pop, base]"
    "meta pop = Some \<lparr>measureIndex = 0, meta_isPoP = Some True\<rparr>"
    "meta base = Some \<lparr>measureIndex = 0, meta_isPoP = None\<rparr>"
    "map_option def_title (defn pop) = Some (getMetricTitle POP_SUFFIX (title revenuePoP))"
    "callFactory id CreatePureMetric revenuePoP revenuePoPBucket 0 = Inr [base]"
    by auto
  moreover from this(5) have "base = createPureMetric revenuePoP revenuePoPBucket 0"
    by (simp add: callFactory_def single_def)
  ultimately show ?thesis by auto
qed

lemma contribution_inner:
  "(if isDerived m then getGeneratedMetricExpression (m\<lparr>measureFilters := []\<rparr>)
    else str ''SELECT ['' @ objectUri m @ str '']'') =
   str ''SELECT ''
   @ (case aggregation m of
        None \<Rightarrow> str ''['' @ objectUri m @ str '']''
      | Some a \<Rightarrow>
          if isDerived m \<and> a \<noteq> [] then toUpperCase a @ str ''(['' @ objectUri m @ str ''])''
          else str ''['' @ objectUri m @ str '']'')"
  by (simp add: getGeneratedMetricExpression_def str_Cons split: option.split)

lemma getMetricFactory_revenueSumPercent:
  "getMetricFactory revenueSumPercent = Inr CreateContributionMetric"
  by (simp add: getMetricFactory_cascade isPoP_def isContribution_def revenueSumPercent_def
      revenue_def)

text \<open>
  C3 (as stated, refuted). The measure \<open>revenueSumPercent\<close> has the type \<^verbatim>\<open>metric\<close>, the
  aggregation \<^verbatim>\<open>sum\<close> and no filter; it is dispatched to the contribution strategy. Its
  derived-aggregate expression without \<^verbatim>\<open>WHERE\<close> clause is
  \<^verbatim>\<open>SELECT SUM([/gdc/md/p1/obj/5])\<close>, but the inner expression of the contribution is
  \<^verbatim>\<open>SELECT [/gdc/md/p1/obj/5]\<close>: the measure is not derived, and the aggregation is left out.
\<close>

theorem C3_inner_not_derived_counterexample:
  "getMetricFactory revenueSumPercent = Inr CreateContributionMetric \<and>
   getGeneratedMetricExpression (revenueSumPercent\<lparr>measureFilters := []\<rparr>)
     = str ''SELECT SUM([/gdc/md/p1/obj/5])'' \<and>
   map_sum id (map_option def_expression \<circ> defn)
     (createContributionMetric id revenueSumPercent revenueSumPercentBucket 0)
     = Inr (Some (str ''SELECT (SELECT [/gdc/md/p1/obj/5]) / (SELECT [/gdc/md/p1/obj/5] BY ALL [/gdc/md/p1/obj/50])'')) \<and>
   map_sum id (map_option def_expression \<circ> defn)
     (createContributionMetric id revenueSumPercent revenueSumPercentBucket 0)
     \<noteq> Inr (Some (str ''SELECT (SELECT SUM([/gdc/md/p1/obj/5])) / (SELECT SUM([/gdc/md/p1/obj/5]) BY ALL [/gdc/md/p1/obj/50])''))"
proof -
  have up: "toUpperCase (str ''sum'') = str ''SUM''"
    by (simp add: toUpperCase_def str_def uc_def)
  have nd: "\<not> isDerived revenueSumPercent"
    by (simp add: isDerived_def allFiltersEmpty_def revenueSumPercent_def revenue_def)
  have g: "getGeneratedMetricExpression (revenueSumPercent\<lparr>measureFilters := []\<rparr>)
     = str ''SELECT SUM([/gdc/md/p1/obj/5])''"
    by (simp add: getGeneratedMetricExpression_def revenueSumPercent_def revenue_def up)
       (simp add: str_def)
  have cat: "categories revenueSumPercentBucket = regionCategory # []"
    by (simp add: revenueSumPercentBucket_def)
  have e: "getPercentMetricExpression (Some regionCategory) revenueSumPercent
     = Inr (str ''SELECT (SELECT [/gdc/md/p1/obj/5]) / (SELECT [/gdc/md/p1/obj/5] BY ALL [/gdc/md/p1/obj/50])'')"
    by (simp add: getPercentMetricExpression_Some nd)
       (simp add: revenueSumPercent_def revenue_def regionCategory_def tpl_def str_def)
  from createContributionMetric_result [OF cat, of revenueSumPercent id 0] e
  have "map_sum id (map_option def_expression \<circ> defn)
     (createContributionMetric id revenueSumPercent revenueSumPercentBucket 0)
     = Inr (Some (str ''SELECT (SELECT [/gdc/md/p1/obj/5]) / (SELECT [/gdc/md/p1/obj/5] BY ALL [/gdc/md/p1/obj/50])''))"
    by auto
  with g getMetricFactory_revenueSumPercent show ?thesis by simp
qed

text \<open>
  C3 (amended). In a bucket whose first category is \<open>c\<close>, the contribution strategy
  generates the expression
  \<^verbatim>\<open>SELECT (<inner><where>) / (<inner> BY ALL [<categoryAttributeUri>]<where>)\<close>, where
  \<^verbatim>\<open><inner>\<close> is \<^verbatim>\<open>SELECT <AGG>([<uri>])\<close> when the measure is derived (type fact or
  attribute, or a filter with selected elements) and has an aggregation, and
  \<^verbatim>\<open>SELECT [<uri>]\<close> otherwise; \<^verbatim>\<open><where>\<close> is the \<^verbatim>\<open>WHERE\<close> clause of the measure's
  filters (empty when no filter has a selected element), the same string in the numerator
  and in the denominator. The format of the definition is \<^verbatim>\<open>#,##0.00%\<close>, whatever the
  measure's format. The contribution+PoP strategy emits this descriptor as its base
  metric, and a PoP wrapper of the same format around the same expression.
\<close>

theorem C3_contribution_expression:
  "categories b = c # cs \<Longrightarrow>
   (let inner = str ''SELECT ''
          @ (case aggregation m of
               None \<Rightarrow> str ''['' @ objectUri m @ str '']''
             | Some a \<Rightarrow>
                 if isDerived m \<and> a \<noteq> []
                 then toUpperCase a @ str ''(['' @ objectUri m @ str ''])''
                 else str ''['' @ objectUri m @ str '']'');
        wh = specWhereClause (measureFilters m);
        expr = str ''SELECT ('' @ inner @ wh @ str '') / ('' @ inner @ str '' BY ALL [''
               @ tpl (cat_attribute c) @ str '']'' @ wh @ str '')''
    in (\<exists>d. createContributionMetric md5 m b i = Inr d \<and>
             map_option def_expression (defn d) = Some expr \<and>
             map_option def_format (defn d) = Some (str ''#,##0.00%'')) \<and>
       (\<exists>pop base. createContributionPoPMetric md5 m b i = Inr [pop, base] \<and>
             createContributionMetric md5 m b i = Inr base \<and>
             map_option def_expression (defn pop)
               = Some (getPoPExpression (getDate b) (str ''('' @ expr @ str '')'')) \<and>
             map_option def_format (defn pop) = Some (str ''#,##0.00%'')))"
proof -
  assume cat: "categories b = c # cs"
  define inner where "inner = str ''SELECT ''
          @ (case aggregation m of
               None \<Rightarrow> str ''['' @ objectUri m @ str '']''
             | Some a \<Rightarrow>
                 if isDerived m \<and> a \<noteq> []
                 then toUpperCase a @ str ''(['' @ objectUri m @ str ''])''
                 else str ''['' @ objectUri m @ str '']'')"
  define wh where "wh = specWhereClause (measureFilters m)"
  define expr where "expr = str ''SELECT ('' @ inner @ wh @ str '') / ('' @ inner
      @ str '' BY ALL ['' @ tpl (cat_attribute c) @ str '']'' @ wh @ str '')''"
  have e: "getPercentMetricExpression (Some c) m = Inr expr"
    unfolding getPercentMetricExpression_Some contribution_inner whereExpressionOf_spec
    by (simp add: expr_def inner_def wh_def)
  obtain ident e' where "getPercentMetricExpression (Some c) m = Inr e'"
    and d: "createContributionMetric md5 m b i =
       Inr \<lparr>element = Some ident,
            defn = Some \<lparr>def_identifier = ident,
                         def_expression = e',
                         def_title = getBaseMetricTitle (title m),
                         def_format = CONTRIBUTION_METRIC_FORMAT\<rparr>,
            item_sort = getMetricSort (msort m) False,
            meta = Some \<lparr>measureIndex = i, meta_isPoP = None\<rparr>\<rparr>"
    using createContributionMetric_result [OF cat] by blast
  with e have e': "e' = expr" by simp
  obtain pident e'' base where "getPercentMetricExpression (Some c) m = Inr e''"
    and base: "createContributionMetric md5 m b i = Inr base"
    and p: "createContributionPoPMetric md5 m b i =
       Inr [popItem pident (getPoPExpression (getDate b) (str ''('' @ e'' @ str '')''))
              (getPoPMetricTitle (title m)) CONTRIBUTION_METRIC_FORMAT m i,
            base]"
    using createContributionPoPMetric_result [OF cat] by blast
  with e have e'': "e'' = expr" by simp
  have one: "\<exists>d. createContributionMetric md5 m b i = Inr d \<and>
             map_option def_expression (defn d) = Some expr \<and>
             map_option def_format (defn d) = Some (str ''#,##0.00%'')"
    using d e' by (simp add: CONTRIBUTION_METRIC_FORMAT_def)
  have two: "\<exists>pop base. createContributionPoPMetric md5 m b i = Inr [pop, base] \<and>
             createContributionMetric md5 m b i = Inr base \<and>
             map_option def_expression (defn pop)
               = Some (getPoPExpression (getDate b) (str ''('' @ expr @ str '')'')) \<and>
             map_option def_format (defn pop) = Some (str ''#,##0.00%'')"
    using p base e'' by (simp add: CONTRIBUTION_METRIC_FORMAT_def popItem_def)
  from one two show ?thesis
    unfolding Let_def inner_def [symmetric] wh_def [symmetric] expr_def [symmetric]
    by blast
qed

theorem C3_contribution_expression_witness:
  "categories revenueSumPercentBucket = regionCategory # [] \<and>
   (\<exists>d. createContributionMetric id amountSum revenueSumPercentBucket 0 = Inr d \<and>
        map_option def_expression (defn d) =
          Some (str ''SELECT (SELECT SUM([/gdc/md/p1/obj/7]) WHERE [/gdc/md/p1/obj/20] NOT IN ([/e?id=1],[/e?id=2])) / (SELECT SUM([/gdc/md/p1/obj/7]) BY ALL [/gdc/md/p1/obj/50] WHERE [/gdc/md/p1/obj/20] NOT IN ([/e?id=1],[/e?id=2]))'') \<and>
        map_option def_format (defn d) = Some (str ''#,##0.00%''))"
proof -
  have cat: "categories revenueSumPercentBucket = regionCategory # []"
    by (simp add: revenueSumPercentBucket_def)
  have up: "toUpperCase (str ''sum'') = str ''SUM''"
    by (simp add: toUpperCase_def str_def uc_def)
  have der: "isDerived amountSum"
    by (simp add: isDerived_def amountSum_def)
  have wh: "specWhereClause (measureFilters amountSum)
      = str '' WHERE [/gdc/md/p1/obj/20] NOT IN ([/e?id=1],[/e?id=2])''"
    by (simp add: specWhereClause_def specFilterClause_def amountSum_def) (simp add: str_def)
  have agg: "aggregation amountSum = Some (str ''sum'')" "objectUri amountSum = str ''/gdc/md/p1/obj/7''"
    by (simp_all add: amountSum_def)
  have attr: "tpl (cat_attribute regionCategory) = str ''/gdc/md/p1/obj/50''"
    by (simp add: regionCategory_def tpl_def)
  have E: "str ''SELECT (''
      @ (str ''SELECT ''
          @ (case aggregation amountSum of
               None \<Rightarrow> str ''['' @ objectUri amountSum @ str '']''
             | Some a \<Rightarrow>
                 if isDerived amountSum \<and> a \<noteq> []
                 then toUpperCase a @ str ''(['' @ objectUri amountSum @ str ''])''
                 else str ''['' @ objectUri amountSum @ str '']''))
      @ specWhereClause (measureFilters amountSum) @ str '') / (''
      @ (str ''SELECT ''
          @ (case aggregation amountSum of
               None \<Rightarrow> str ''['' @ objectUri amountSum @ str '']''
             | Some a \<Rightarrow>
                 if isDerived amountSum \<and> a \<noteq> []
                 then toUpperCase a @ str ''(['' @ objectUri amountSum @ str ''])''
                 else str ''['' @ objectUri amountSum @ str '']''))
      @ str '' BY ALL ['' @ tpl (cat_attribute regionCategory) @ str '']''
      @ specWhereClause (measureFilters amountSum) @ str '')''
    = str ''SELECT (SELECT SUM([/gdc/md/p1/obj/7]) WHERE [/gdc/md/p1/obj/20] NOT IN ([/e?id=1],[/e?id=2])) / (SELECT SUM([/gdc/md/p1/obj/7]) BY ALL [/gdc/md/p1/obj/50] WHERE [/gdc/md/p1/obj/20] NOT IN ([/e?id=1],[/e?id=2]))''"
    by (simp add: der wh agg attr up) (simp add: str_def)
  from C3_contribution_expression [OF cat, of amountSum id 0, unfolded Let_def E, THEN conjunct1]
  show ?thesis using cat by simp
qed

section \<open>Claims about the expression compiler\<close>

text \<open>
  C4. For every measure, the derived generated-aggregate expression is \<^verbatim>\<open>SELECT \<close>
  followed by \<^verbatim>\<open><AGG>([<uri>])\<close> when an aggregation is given (a non-empty string; it
  is uppercased) and by \<^verbatim>\<open>[<uri>]\<close> otherwise, followed by the \<^verbatim>\<open>WHERE\<close> clause of the
  spec: absent when no filter has a selected element, else \<^verbatim>\<open> WHERE <f1> AND <f2> ...\<close>
  where the clauses are those of the filters with a non-empty element list, in order,
  each \<^verbatim>\<open>[<attributeUri>] IN (...)\<close> or \<^verbatim>\<open>[<attributeUri>] NOT IN (...)\<close> with every
  element in brackets and the elements joined by commas. A filter whose element list is
  empty contributes nothing.
\<close>

theorem C4_derived_expression_grammar:
  "getGeneratedMetricExpression m =
     str ''SELECT ''
     @ (case aggregation m of
          None \<Rightarrow> str ''['' @ objectUri m @ str '']''
        | Some a \<Rightarrow>
            if a = [] then str ''['' @ objectUri m @ str '']''
            else toUpperCase a @ str ''(['' @ objectUri m @ str ''])'')
     @ (case filter (\<lambda>f. attributeElements f \<noteq> []) (measureFilters m) of
          [] \<Rightarrow> str ''''
        | g # gs \<Rightarrow>
            str '' WHERE ''
            @ join (str '' AND '')
                (map (\<lambda>f. str ''['' @ af_attribute f @ str ''] ''
                           @ (if negativeSelection f then str ''NOT IN ('' else str ''IN ('')
                           @ join (str '','')
                               (map (\<lambda>e. str ''['' @ e @ str '']'') (attributeElements f))
                           @ str '')'')
                     (g # gs)))"
proof -
  have clause: "(\<lambda>f. str ''['' @ af_attribute f @ str ''] ''
                           @ (if negativeSelection f then str ''NOT IN ('' else str ''IN ('')
                           @ join (str '','')
                               (map (\<lambda>e. str ''['' @ e @ str '']'') (attributeElements f))
                           @ str '')'') = specFilterClause"
    by (rule ext) (simp add: specFilterClause_def)
  have "getGeneratedMetricExpression m =
     str ''SELECT ''
     @ (case aggregation m of
          None \<Rightarrow> str ''['' @ objectUri m @ str '']''
        | Some a \<Rightarrow>
            if a = [] then str ''['' @ objectUri m @ str '']''
            else toUpperCase a @ str ''(['' @ objectUri m @ str ''])'')
     @ specWhereClause (measureFilters m)"
    by (simp add: getGeneratedMetricExpression_def whereExpressionOf_spec Let_def
        split: option.split)
  then show ?thesis
    unfolding clause specWhereClause_def .
qed

theorem C4_derived_expression_grammar_witness:
  "getGeneratedMetricExpression amountSum =
     str ''SELECT SUM([/gdc/md/p1/obj/7]) WHERE [/gdc/md/p1/obj/20] NOT IN ([/e?id=1],[/e?id=2])'' \<and>
   getGeneratedMetricExpression revenue = str ''SELECT [/gdc/md/p1/obj/5]''"
proof -
  have up: "toUpperCase (str ''sum'') = str ''SUM''"
    by (simp add: toUpperCase_def str_def uc_def)
  have "getGeneratedMetricExpression amountSum =
     str ''SELECT SUM([/gdc/md/p1/obj/7]) WHERE [/gdc/md/p1/obj/20] NOT IN ([/e?id=1],[/e?id=2])''"
    unfolding C4_derived_expression_grammar [of amountSum]
    by (simp add: amountSum_def up) (simp add: str_def)
  moreover have "getGeneratedMetricExpression revenue = str ''SELECT [/gdc/md/p1/obj/5]''"
    unfolding C4_derived_expression_grammar [of revenue]
    by (simp add: revenue_def) (simp add: str_def)
  ultimately show ?thesis by blast
qed

section \<open>Claims about the identifier generator\<close>

text \<open>
  C5. The identifier is a function of the measure's type, object URI and filters, of
  the aggregation token, and of the expression, title and format that go into the hash.
  Whenever the expression creator yields an expression \<open>e\<close>, the identifier is
  \<^verbatim>\<open><type>_<projectId>_<objectId>.generated.<hash>[_filtered]_<aggregation>\<close>, where
  projectId and objectId are the segments 3 and 5 of the object URI split at \<^verbatim>\<open>/\<close>, the
  hash is the digest of \<^verbatim>\<open><expression>#<title>#<format>\<close>, and \<^verbatim>\<open>_filtered\<close> is present
  exactly when some filter of the measure has a non-empty list of selected elements.
  Two measures that agree on object URI, type and filters, with the same expression,
  title, format and aggregation token, get the same identifier; in particular the derived
  strategy gives the same identifier to two measures that agree on title, format, object
  URI, type, aggregation and filters, whatever their other properties, the bucket and the
  measure index.
\<close>

theorem C5_identifier_shape_deterministic:
  "(expressionCreator m = Inr e \<longrightarrow>
      getGeneratedMetricIdentifier m agg expressionCreator (getGeneratedMetricHash md5 t f) =
        Inr (mtype m @ str ''_''
             @ tpl (at_index (split_on (uc CHR ''/'') (objectUri m)) 3) @ str ''_''
             @ tpl (at_index (split_on (uc CHR ''/'') (objectUri m)) 5)
             @ str ''.generated.'' @ md5 (e @ str ''#'' @ t @ str ''#'' @ f)
             @ (if list_ex (\<lambda>x. attributeElements x \<noteq> []) (measureFilters m)
                then str ''_filtered'' else str '''')
             @ str ''_'' @ agg)) \<and>
   (objectUri m = objectUri m' \<and> mtype m = mtype m' \<and> measureFilters m = measureFilters m' \<and>
    expressionCreator m = Inr e \<and> expressionCreator' m' = Inr e \<longrightarrow>
      getGeneratedMetricIdentifier m agg expressionCreator (getGeneratedMetricHash md5 t f) =
      getGeneratedMetricIdentifier m' agg expressionCreator' (getGeneratedMetricHash md5 t f)) \<and>
   (title m = title m' \<and> format m = format m' \<and> objectUri m = objectUri m' \<and>
    mtype m = mtype m' \<and> aggregation m = aggregation m' \<and>
    measureFilters m = measureFilters m' \<longrightarrow>
      map_sum id element (createDerivedMetric md5 m b i) =
      map_sum id element (createDerivedMetric md5 m' b' i'))"
proof (intro conjI impI)
  assume "expressionCreator m = Inr e"
  then show "getGeneratedMetricIdentifier m agg expressionCreator (getGeneratedMetricHash md5 t f) =
        Inr (mtype m @ str ''_''
             @ tpl (at_index (split_on (uc CHR ''/'') (objectUri m)) 3) @ str ''_''
             @ tpl (at_index (split_on (uc CHR ''/'') (objectUri m)) 5)
             @ str ''.generated.'' @ md5 (e @ str ''#'' @ t @ str ''#'' @ f)
             @ (if list_ex (\<lambda>x. attributeElements x \<noteq> []) (measureFilters m)
                then str ''_filtered'' else str '''')
             @ str ''_'' @ agg)"
    by (simp add: getGeneratedMetricIdentifier_shape getGeneratedMetricHash_def)
next
  assume "objectUri m = objectUri m' \<and> mtype m = mtype m' \<and>
    measureFilters m = measureFilters m' \<and>
    expressionCreator m = Inr e \<and> expressionCreator' m' = Inr e"
  then show "getGeneratedMetricIdentifier m agg expressionCreator (getGeneratedMetricHash md5 t f) =
      getGeneratedMetricIdentifier m' agg expressionCreator' (getGeneratedMetricHash md5 t f)"
    by (simp add: getGeneratedMetricIdentifier_shape)
next
  assume same: "title m = title m' \<and> format m = format m' \<and> objectUri m = objectUri m' \<and>
    mtype m = mtype m' \<and> aggregation m = aggregation m' \<and>
    measureFilters m = measureFilters m'"
  then have "getGeneratedMetricExpression m = getGeneratedMetricExpression m'"
    by (intro getGeneratedMetricExpression_cong) simp_all
  with same show "map_sum id element (createDerivedMetric md5 m b i) =
      map_sum id element (createDerivedMetric md5 m' b' i')"
    by (simp add: createDerivedMetric_def getGeneratedMetricIdentifier_shape Let_def)
qed

theorem C5_identifier_shape_deterministic_witness:
  "getGeneratedMetricIdentifier revenue (str ''base'')
      (\<lambda>i. Inr (getGeneratedMetricExpression i))
      (getGeneratedMetricHash id (str ''Revenue'') (str ''#,##0''))
     = Inr (str ''metric_p1_5.generated.SELECT [/gdc/md/p1/obj/5]#Revenue##,##0_base'') \<and>
   getGeneratedMetricIdentifier amountSum (str ''sum'')
      (\<lambda>i. Inr (str ''E''))
      (getGeneratedMetricHash (\<lambda>s. str ''0123'') (str ''T'') (str ''F''))
     = Inr (str ''fact_p1_7.generated.0123_filtered_sum'') \<and>
   map_sum id element (createDerivedMetric id amountSum revenueBucket 0) =
   map_sum id element
     (createDerivedMetric id (amountSum\<lparr>msort := Some (SortString (str ''asc'')), showPoP := True\<rparr>)
        \<lparr>measureList = [], categories = [], filters = []\<rparr> 3)"
proof -
  have e1: "(\<lambda>i. Inr (getGeneratedMetricExpression i)) revenue
      = (Inr (str ''SELECT [/gdc/md/p1/obj/5]'') :: error + ustring)"
    by (simp add: getGeneratedMetricExpression_def revenue_def) (simp add: str_def)
  have e2: "(\<lambda>i. Inr (str ''E'')) amountSum = (Inr (str ''E'') :: error + ustring)"
    by simp
  have s7: "split_on (uc CHR ''/'') (str ''/gdc/md/p1/obj/7'')
     = [str '''', str ''gdc'', str ''md'', str ''p1'', str ''obj'', str ''7'']"
    by (simp add: str_def)
  note c5 = C5_identifier_shape_deterministic
  have "getGeneratedMetricIdentifier revenue (str ''base'')
      (\<lambda>i. Inr (getGeneratedMetricExpression i))
      (getGeneratedMetricHash id (str ''Revenue'') (str ''#,##0''))
     = Inr (str ''metric_p1_5.generated.SELECT [/gdc/md/p1/obj/5]#Revenue##,##0_base'')"
    using c5 [where expressionCreator = "\<lambda>i. Inr (getGeneratedMetricExpression i)" and m = revenue
        and e = "str ''SELECT [/gdc/md/p1/obj/5]''" and agg = "str ''base''" and ?md5.0 = id
        and t = "str ''Revenue''" and f = "str ''#,##0''", THEN conjunct1, THEN mp, OF e1]
    by (simp add: revenue_def split_on_example at_index_def tpl_def) (simp add: str_def)
  moreover have "getGeneratedMetricIdentifier amountSum (str ''sum'')
      (\<lambda>i. Inr (str ''E''))
      (getGeneratedMetricHash (\<lambda>s. str ''0123'') (str ''T'') (str ''F''))
     = Inr (str ''fact_p1_7.generated.0123_filtered_sum'')"
    using c5 [where expressionCreator = "\<lambda>i. Inr (str ''E'')" and m = amountSum
        and e = "str ''E''" and agg = "str ''sum''" and ?md5.0 = "\<lambda>s. str ''0123''"
        and t = "str ''T''" and f = "str ''F''", THEN conjunct1, THEN mp, OF e2]
    by (simp add: amountSum_def s7 at_index_def tpl_def) (simp add: str_def)
  moreover have "map_sum id element (createDerivedMetric id amountSum revenueBucket 0) =
   map_sum id element
     (createDerivedMetric id (amountSum\<lparr>msort := Some (SortString (str ''asc'')), showPoP := True\<rparr>)
        \<lparr>measureList = [], categories = [], filters = []\<rparr> 3)"
    by (rule c5 [THEN conjunct2, THEN conjunct2, THEN mp]) simp
  ultimately show ?thesis by blast
qed

section \<open>Claims about the ordering\<close>

text \<open>
  C8. When the visualization type is \<^verbatim>\<open>bar\<close> and the metric list is not empty,
  \<open>orderBy\<close> is exactly one entry: its column is the first metric element that is a
  non-empty string (\<^verbatim>\<open>undefined\<close> when there is none) and its direction is \<^verbatim>\<open>desc\<close>;
  the entry depends on the metric elements only, so every sort setting of a category or a
  metric is discarded. For every other visualization type, \<open>orderBy\<close> has one entry
  \<^verbatim>\<open>{column: element, direction: sort}\<close> for every item that carries a sort setting (a
  truthy \<^verbatim>\<open>sort\<close>): those of the categories first, then those of the metrics, each in
  the order of its list. A compile call that succeeds computes its \<open>orderBy\<close> in this way
  from the descriptors of all measures, the elements of the categories (without the date
  categories when date items are removed) and the visualization type.
\<close>

theorem C8_order_by:
  "(metrics \<noteq> [] \<longrightarrow>
      getOrderBy metrics cats (Some (str ''bar'')) =
        [\<lparr>column = (case find truthy (map element metrics) of None \<Rightarrow> None | Some e \<Rightarrow> e),
          direction = Some (str ''desc'')\<rparr>]) \<and>
   (vt \<noteq> Some (str ''bar'') \<longrightarrow>
      getOrderBy metrics cats vt =
        map (\<lambda>i. \<lparr>column = element i, direction = item_sort i\<rparr>)
            (filter (\<lambda>i. truthy (item_sort i)) cats)
        @ map (\<lambda>i. \<lparr>column = element i, direction = item_sort i\<rparr>)
            (filter (\<lambda>i. truthy (item_sort i)) metrics)) \<and>
   (mdToExecutionConfiguration sortDefs md5 mdObj opts = Inr cfg \<longrightarrow>
      (\<exists>ms. createMetrics md5 (buckets mdObj) (measureList (buckets mdObj)) 0 = Inr ms \<and>
            orderBy cfg =
              getOrderBy ms
                (map categoryToElement
                   (if removeDateItems opts
                    then filter (\<lambda>c. cat_type c \<noteq> str ''date'') (categories (buckets mdObj))
                    else categories (buckets mdObj)))
                (vtype mdObj)))"
proof (intro conjI impI)
  assume "metrics \<noteq> []"
  then show "getOrderBy metrics cats (Some (str ''bar'')) =
        [\<lparr>column = (case find truthy (map element metrics) of None \<Rightarrow> None | Some e \<Rightarrow> e),
          direction = Some (str ''desc'')\<rparr>]"
    by (simp add: getOrderBy_def first_compact)
next
  have entry: "sortToOrderBy = (\<lambda>i. \<lparr>column = element i, direction = item_sort i\<rparr>)"
    by (rule ext) (simp add: sortToOrderBy_def)
  assume "vt \<noteq> Some (str ''bar'')"
  then show "getOrderBy metrics cats vt =
        map (\<lambda>i. \<lparr>column = element i, direction = item_sort i\<rparr>)
            (filter (\<lambda>i. truthy (item_sort i)) cats)
        @ map (\<lambda>i. \<lparr>column = element i, direction = item_sort i\<rparr>)
            (filter (\<lambda>i. truthy (item_sort i)) metrics)"
    by (simp add: getOrderBy_def entry)
next
  assume "mdToExecutionConfiguration sortDefs md5 mdObj opts = Inr cfg"
  then show "\<exists>ms. createMetrics md5 (buckets mdObj) (measureList (buckets mdObj)) 0 = Inr ms \<and>
            orderBy cfg =
              getOrderBy ms
                (map categoryToElement
                   (if removeDateItems opts
                    then filter (\<lambda>c. cat_type c \<noteq> str ''date'') (categories (buckets mdObj))
                    else categories (buckets mdObj)))
                (vtype mdObj)"
    by (cases "createMetrics md5 (buckets mdObj) (measureList (buckets mdObj)) 0")
      (auto simp: mdToExecutionConfiguration_def getCategories_def Let_def)
qed

theorem C8_order_by_witness:
  "[metricA, metricB] \<noteq> [] \<and>
   getOrderBy [metricA, metricB] [categoryC] (Some (str ''bar'')) =
     [\<lparr>column = Some (str ''/gdc/md/p1/obj/5''), direction = Some (str ''desc'')\<rparr>] \<and>
   Some (str ''table'') \<noteq> Some (str ''bar'') \<and>
   getOrderBy [metricA, metricB] [categoryC] (Some (str ''table'')) =
     [\<lparr>column = Some (str ''/gdc/md/p1/obj/30''), direction = Some (str ''desc'')\<rparr>,
      \<lparr>column = Some (str ''/gdc/md/p1/obj/5''), direction = Some (str ''asc'')\<rparr>,
      \<lparr>column = Some (str ''/gdc/md/p1/obj/6''), direction = Some (str ''asc'')\<rparr>] \<and>
   map_sum id orderBy
     (mdToExecutionConfiguration sortDefinitions id
        \<lparr>buckets = revenueBucket, vtype = Some (str ''bar'')\<rparr> \<lparr>removeDateItems = False\<rparr>)
     = Inr [\<lparr>column = Some (str ''/gdc/md/p1/obj/5''), direction = Some (str ''desc'')\<rparr>]"
proof -
  have ne: "[metricA, metricB] \<noteq> []" by simp
  have other: "Some (str ''table'') \<noteq> Some (str ''bar'')" by simp
  have "getOrderBy [metricA, metricB] [categoryC] (Some (str ''bar'')) =
     [\<lparr>column = Some (str ''/gdc/md/p1/obj/5''), direction = Some (str ''desc'')\<rparr>]"
    using C8_order_by [THEN conjunct1, THEN mp, OF ne, of "[categoryC]"]
    by (simp add: metricA_def metricB_def truthy_def)
  moreover have "getOrderBy [metricA, metricB] [categoryC] (Some (str ''table'')) =
     [\<lparr>column = Some (str ''/gdc/md/p1/obj/30''), direction = Some (str ''desc'')\<rparr>,
      \<lparr>column = Some (str ''/gdc/md/p1/obj/5''), direction = Some (str ''asc'')\<rparr>,
      \<lparr>column = Some (str ''/gdc/md/p1/obj/6''), direction = Some (str ''asc'')\<rparr>]"
    using C8_order_by [THEN conjunct2, THEN conjunct1, THEN mp, OF other, of "[metricA, metricB]" "[categoryC]"]
    by (simp add: metricA_def metricB_def categoryC_def truthy_def)
  moreover have "map_sum id orderBy
     (mdToExecutionConfiguration sortDefinitions id
        \<lparr>buckets = revenueBucket, vtype = Some (str ''bar'')\<rparr> \<lparr>removeDateItems = False\<rparr>)
     = Inr [\<lparr>column = Some (str ''/gdc/md/p1/obj/5''), direction = Some (str ''desc'')\<rparr>]"
  proof -
    obtain cfg where cfg: "mdToExecutionConfiguration sortDefinitions id
        \<lparr>buckets = revenueBucket, vtype = Some (str ''bar'')\<rparr> \<lparr>removeDateItems = False\<rparr> = Inr cfg"
      by (simp add: compile_revenue)
    from C8_order_by [THEN conjunct2, THEN conjunct2, THEN mp, OF cfg]
    have "orderBy cfg =
        getOrderBy [\<lparr>element = Some (str ''/gdc/md/p1/obj/5''), defn = None, item_sort = None,
           meta = Some \<lparr>measureIndex = 0, meta_isPoP = None\<rparr>\<rparr>] [] (Some (str ''bar''))"
      by (simp add: revenueBucket_def createMetrics_revenue del: createMetrics.simps)
    then have "orderBy cfg =
        [\<lparr>column = Some (str ''/gdc/md/p1/obj/5''), direction = Some (str ''desc'')\<rparr>]"
      by (simp add: getOrderBy_def first_def)
    with cfg show ?thesis by simp
  qed
  ultimately show ?thesis using ne other by blast
qed

section \<open>Claims about the assembler\<close>

text \<open>
  C9 (as stated, refuted). The bucket holds the measure \<open>revenue\<close> only, without
  category and without filter. The compiled \<^verbatim>\<open>where\<close> object is not empty: it has the
  entry \<^verbatim>\<open>$and\<close>, whose value is the empty list of attribute clauses.
\<close>

theorem C9_where_has_and_entry_counterexample:
  "map_sum id where_clause
     (mdToExecutionConfiguration sortDefinitions id
        \<lparr>buckets = revenueBucket, vtype = None\<rparr> \<lparr>removeDateItems = False\<rparr>)
     = Inr [(str ''$and'', AndList [])] \<and>
   map_sum id where_clause
     (mdToExecutionConfiguration sortDefinitions id
        \<lparr>buckets = revenueBucket, vtype = None\<rparr> \<lparr>removeDateItems = False\<rparr>)
     \<noteq> Inr []"
  by (simp add: compile_revenue)

text \<open>
  C9 (amended). For the bucket that holds the measure \<open>revenue\<close> only (no PoP or
  contribution flag, no category, no filter), whatever the visualization type and the
  options, the compilation succeeds; the configuration has exactly one column, the
  measure's object URI; its definitions list is empty (the definition sorter receives the
  empty list, and is assumed to return it); and its \<^verbatim>\<open>where\<close> object has the single
  entry \<^verbatim>\<open>$and\<close> with an empty list: no date clause and no attribute clause.
\<close>

theorem C9_pure_measure_end_to_end:
  "sortDefs [] = [] \<Longrightarrow>
   (\<exists>cfg. mdToExecutionConfiguration sortDefs md5 \<lparr>buckets = revenueBucket, vtype = vt\<rparr> opts
            = Inr cfg \<and>
          columns cfg = [objectUri revenue] \<and>
          definitions cfg = [] \<and>
          where_clause cfg = [(str ''$and'', AndList [])] \<and>
          metricMappings cfg = [\<lparr>mm_element = Some (objectUri revenue),
                                  mm_measureIndex = Some 0, mm_isPoP = None\<rparr>])"
  by (simp add: compile_revenue) (simp add: revenue_def)

theorem C9_pure_measure_end_to_end_witness:
  "sortDefinitions [] = [] \<and>
   (\<exists>cfg. mdToExecutionConfiguration sortDefinitions id
             \<lparr>buckets = revenueBucket, vtype = None\<rparr> \<lparr>removeDateItems = False\<rparr> = Inr cfg \<and>
          columns cfg = [str ''/gdc/md/p1/obj/5''] \<and>
          definitions cfg = [] \<and>
          where_clause cfg = [(str ''$and'', AndList [])])"
proof -
  have s: "sortDefinitions [] = []" by simp
  from C9_pure_measure_end_to_end [of sortDefinitions id None "\<lparr>removeDateItems = False\<rparr>", OF s]
  show ?thesis using s by (auto simp: revenue_def)
qed

section \<open>Claims about \<open>getDataForVis\<close>\<close>

lemma getOriginalMetricFormats_holds:
  assumes "holdsMdObject h a b arr ws rs ms cats fs vt"
  shows "getOriginalMetricFormats xhrGet h a = resolveFormats xhrGet h rs"
proof -
  from assms have w: "map (at_index h) ws = map (\<lambda>r. Some (WrapperOf r)) rs"
    by (simp add: holdsMdObject_def)
  have "those (map (measureRefOf h) ws) = Some (map id rs)"
    by (rule those_map_Some) (simp add: measureRefOf_map [OF w])
  then show ?thesis
    using assms by (simp add: getOriginalMetricFormats_def holdsMdObject_def)
qed

lemma getDataForVis_resolved:
  assumes wf: "holdsMdObject h a b arr ws rs ms cats fs vt"
    and ok: "list_all (\<lambda>m. needsOriginalFormat m \<longrightarrow> (\<exists>fmt. xhrGet (objectUri m) = Inr fmt)) ms"
  shows "\<exists>h' arr' ws' rs'.
      getDataForVis xhrGet sortDefs md5 h a =
        (h', mdToExecutionConfiguration sortDefs md5
               \<lparr>buckets = \<lparr>measureList = map (withOriginalFormat xhrGet) ms,
                           categories = cats, filters = fs\<rparr>,
                vtype = vt\<rparr>
               \<lparr>removeDateItems = False\<rparr>) \<and>
      holdsMdObject h' a b arr' ws' rs' (map (withOriginalFormat xhrGet) ms) cats fs vt \<and>
      length h \<le> arr' \<and> arr < length h \<and>
      list_all (\<lambda>w. length h \<le> w) ws' \<and> list_all (\<lambda>w. w < length h) ws \<and>
      length rs' = length ms \<and>
      list_all (\<lambda>(m, old, new). if needsOriginalFormat m then length h \<le> new else new = old)
        (zip ms (zip rs rs')) \<and>
      (\<forall>x. x \<noteq> b \<longrightarrow> x < length h \<longrightarrow> at_index h' x = at_index h x)"
proof -
  from wf have A: "at_index h a = Some (MdObjectAt b vt)"
    and B: "at_index h b = Some (BucketsAt arr cats fs)"
    and ARR: "at_index h arr = Some (ArrayOf ws)"
    and W: "map (at_index h) ws = map (\<lambda>r. Some (WrapperOf r)) rs"
    and R: "map (at_index h) rs = map (\<lambda>m. Some (MeasureObject m)) ms"
    by (simp_all add: holdsMdObject_def)
  from A B have ab: "a \<noteq> b" by auto
  from B have bl: "b < length h" by (rule at_index_less)
  from ARR have arrl: "arr < length h" by (rule at_index_less)
  from resolveFormats_ok [OF R ok] obtain e rs' where
    rf: "resolveFormats xhrGet h rs = Inr (h @ e, rs')"
    and len: "length rs' = length ms"
    and vals: "map (at_index (h @ e)) rs'
        = map (\<lambda>m. Some (MeasureObject (withOriginalFormat xhrGet m))) ms"
    and fresh: "list_all (\<lambda>(m, old, new). if needsOriginalFormat m
          then length h \<le> new else new = old) (zip ms (zip rs rs'))"
    by blast
  define h1 where "h1 = h @ e"
  define ws' where "ws' = [length h1 ..< length h1 + length rs']"
  define arr' where "arr' = length h1 + length rs'"
  define h3 where "h3 = h1 @ map WrapperOf rs' @ [ArrayOf ws']"
  define h4 where "h4 = h3[b := BucketsAt arr' cats fs]"
  have h3h: "h3 = h @ (e @ map WrapperOf rs' @ [ArrayOf ws'])"
    by (simp add: h3_def h1_def)
  have A1: "at_index h1 a = Some (MdObjectAt b vt)"
    and B1: "at_index h1 b = Some (BucketsAt arr cats fs)"
    unfolding h1_def by (rule at_index_append [OF A], rule at_index_append [OF B])
  have gomf: "getOriginalMetricFormats xhrGet h a = Inr (h1, rs')"
    by (simp add: getOriginalMetricFormats_holds [OF wf] rf h1_def)
  have run: "getDataForVis xhrGet sortDefs md5 h a =
      (h4, case readMdObject h4 a of
             None \<Rightarrow> Inl TypeError
           | Some v \<Rightarrow> mdToExecutionConfiguration sortDefs md5 v \<lparr>removeDateItems = False\<rparr>)"
    by (simp add: getDataForVis_def gomf A1 B1 wrapMeasures_eq alloc_def Let_def
        h4_def h3_def ws'_def arr'_def)
  have A4: "at_index h4 a = Some (MdObjectAt b vt)"
    using ab at_index_append [OF A, of "e @ map WrapperOf rs' @ [ArrayOf ws']"]
    by (simp add: h4_def at_index_update_other h3h)
  have B4: "at_index h4 b = Some (BucketsAt arr' cats fs)"
    using bl by (simp add: h4_def at_index_update_same h3h)
  have arrb: "arr' \<noteq> b" using bl by (simp add: arr'_def h1_def)
  have "at_index h3 arr' = Some (ArrayOf ws')"
    by (simp add: h3_def arr'_def at_index_def nth_append)
  with arrb have ARR4: "at_index h4 arr' = Some (ArrayOf ws')"
    by (simp add: h4_def at_index_update_other)
  have bws: "b \<notin> set ws'" using bl by (simp add: ws'_def h1_def)
  have "map (at_index h3) ws' = map (\<lambda>r. Some (WrapperOf r)) rs'"
    unfolding h3_def ws'_def by (rule map_at_index_wrappers)
  then have W4: "map (at_index h4) ws' = map (\<lambda>r. Some (WrapperOf r)) rs'"
    unfolding h4_def using bws by (rule map_at_index_update)
  have vals1: "map (at_index h1) rs'
        = map (\<lambda>m. Some (MeasureObject (withOriginalFormat xhrGet m))) ms"
    using vals by (simp add: h1_def)
  have brs: "b \<notin> set rs'"
    by (rule measure_refs_not_buckets [OF vals1 B1])
  have "map (at_index h3) rs'
        = map (\<lambda>m. Some (MeasureObject (withOriginalFormat xhrGet m))) ms"
    unfolding h3_def by (rule map_at_index_append [OF vals1])
  then have R4: "map (at_index h4) rs'
        = map (\<lambda>m. Some (MeasureObject (withOriginalFormat xhrGet m))) ms"
    unfolding h4_def using brs by (rule map_at_index_update)
  have R4': "map (at_index h4) rs'
        = map (\<lambda>m. Some (MeasureObject m)) (map (withOriginalFormat xhrGet) ms)"
    using R4 by (simp add: comp_def)
  have wf4: "holdsMdObject h4 a b arr' ws' rs' (map (withOriginalFormat xhrGet) ms) cats fs vt"
    using A4 B4 ARR4 W4 R4' by (simp add: holdsMdObject_def)
  have frame: "\<forall>x. x \<noteq> b \<longrightarrow> x < length h \<longrightarrow> at_index h4 x = at_index h x"
    by (simp add: h4_def at_index_update_other) (simp add: h3h at_index_def nth_append)
  have freshw: "list_all (\<lambda>w. length h \<le> w) ws'"
    by (simp add: ws'_def h1_def list_all_iff)
  have oldw: "list_all (\<lambda>w. w < length h) ws"
    by (rule map_at_index_bound [OF W])
  have fresha: "length h \<le> arr'" by (simp add: arr'_def h1_def)
  have run': "getDataForVis xhrGet sortDefs md5 h a =
        (h4, mdToExecutionConfiguration sortDefs md5
               \<lparr>buckets = \<lparr>measureList = map (withOriginalFormat xhrGet) ms,
                           categories = cats, filters = fs\<rparr>,
                vtype = vt\<rparr>
               \<lparr>removeDateItems = False\<rparr>)"
    using run readMdObject_holds [OF wf4] by simp
  show ?thesis
    by (rule exI [of _ h4], rule exI [of _ arr'], rule exI [of _ ws'], rule exI [of _ rs'])
      (intro conjI run' wf4 fresha arrl freshw oldw len fresh frame)
qed

lemma getDataForVis_rejected:
  assumes wf: "holdsMdObject h a b arr ws rs ms cats fs vt"
    and bad: "list_ex (\<lambda>m. needsOriginalFormat m \<and> (\<exists>err. xhrGet (objectUri m) = Inl err)) ms"
  shows "\<exists>err. getDataForVis xhrGet sortDefs md5 h a = (h, Inl err)"
proof -
  from wf have R: "map (at_index h) rs = map (\<lambda>m. Some (MeasureObject m)) ms"
    by (simp add: holdsMdObject_def)
  from resolveFormats_rejected [OF R bad] obtain err where
    "resolveFormats xhrGet h rs = Inl err" by blast
  then show ?thesis
    by (simp add: getDataForVis_def getOriginalMetricFormats_holds [OF wf])
qed

text \<open>
  C10. Let the store hold a metadata object at \<open>a\<close>, with its buckets object at \<open>b\<close>,
  the array of measure wrappers at \<open>arr\<close> and the wrappers at \<open>ws\<close>. When every format
  request that \<open>getDataForVis\<close> issues is answered (the requests are issued for the
  measures with \<^verbatim>\<open>showPoP\<close> true or with measure filters), the call updates the caller's
  buckets object in place and then compiles the updated object: after the call the
  \<^verbatim>\<open>measures\<close> property of the object at \<open>b\<close> refers to a new array \<open>arr'\<close> of new wrappers
  \<open>ws'\<close>, none of which is an original wrapper; the wrapped measure objects are new copies
  with the resolved format for the measures that needed a request, and the original
  measure objects for the others; no other object that existed before is changed; and
  the configuration handed to the transport is the compilation of the object with the
  resolved measures. When one of the requests is rejected, the callback does not run:
  nothing is compiled and the store is unchanged.
\<close>

theorem C10_getDataForVis_mutates_mdObj:
  "holdsMdObject h a b arr ws rs ms cats fs vt \<Longrightarrow>
   (list_all (\<lambda>m. needsOriginalFormat m \<longrightarrow> (\<exists>fmt. xhrGet (objectUri m) = Inr fmt)) ms \<longrightarrow>
      (\<exists>h' arr' ws' rs'.
         getDataForVis xhrGet sortDefs md5 h a =
           (h', mdToExecutionConfiguration sortDefs md5
                  \<lparr>buckets = \<lparr>measureList = map (withOriginalFormat xhrGet) ms,
                              categories = cats, filters = fs\<rparr>,
                   vtype = vt\<rparr>
                  \<lparr>removeDateItems = False\<rparr>) \<and>
         holdsMdObject h' a b arr' ws' rs' (map (withOriginalFormat xhrGet) ms) cats fs vt \<and>
         length h \<le> arr' \<and> arr' \<noteq> arr \<and>
         list_all (\<lambda>w. length h \<le> w) ws' \<and> set ws' \<inter> set ws = {} \<and>
         length rs' = length ms \<and>
         list_all (\<lambda>(m, old, new). if needsOriginalFormat m then length h \<le> new else new = old)
           (zip ms (zip rs rs')) \<and>
         (\<forall>x. x \<noteq> b \<longrightarrow> x < length h \<longrightarrow> at_index h' x = at_index h x))) \<and>
   (list_ex (\<lambda>m. needsOriginalFormat m \<and> (\<exists>err. xhrGet (objectUri m) = Inl err)) ms \<longrightarrow>
      (\<exists>err. getDataForVis xhrGet sortDefs md5 h a = (h, Inl err)))"
proof (intro conjI impI)
  assume wf: "holdsMdObject h a b arr ws rs ms cats fs vt"
    and ok: "list_all (\<lambda>m. needsOriginalFormat m \<longrightarrow> (\<exists>fmt. xhrGet (objectUri m) = Inr fmt)) ms"
  from getDataForVis_resolved [OF wf ok, of sortDefs md5] obtain h' arr' ws' rs' where
    run: "getDataForVis xhrGet sortDefs md5 h a =
           (h', mdToExecutionConfiguration sortDefs md5
                  \<lparr>buckets = \<lparr>measureList = map (withOriginalFormat xhrGet) ms,
                              categories = cats, filters = fs\<rparr>,
                   vtype = vt\<rparr>
                  \<lparr>removeDateItems = False\<rparr>)"
    and wf': "holdsMdObject h' a b arr' ws' rs' (map (withOriginalFormat xhrGet) ms) cats fs vt"
    and fa: "length h \<le> arr'" and oa: "arr < length h"
    and fw: "list_all (\<lambda>w. length h \<le> w) ws'" and ow: "list_all (\<lambda>w. w < length h) ws"
    and len: "length rs' = length ms"
    and fresh: "list_all (\<lambda>(m, old, new). if needsOriginalFormat m
          then length h \<le> new else new = old) (zip ms (zip rs rs'))"
    and frame: "\<forall>x. x \<noteq> b \<longrightarrow> x < length h \<longrightarrow> at_index h' x = at_index h x"
    by blast
  from fa oa have ne: "arr' \<noteq> arr" by simp
  from fw ow have disj: "set ws' \<inter> set ws = {}"
    by (fastforce simp: list_all_iff)
  show "\<exists>h' arr' ws' rs'.
         getDataForVis xhrGet sortDefs md5 h a =
           (h', mdToExecutionConfiguration sortDefs md5
                  \<lparr>buckets = \<lparr>measureList = map (withOriginalFormat xhrGet) ms,
                              categories = cats, filters = fs\<rparr>,
                   vtype = vt\<rparr>
                  \<lparr>removeDateItems = False\<rparr>) \<and>
         holdsMdObject h' a b arr' ws' rs' (map (withOriginalFormat xhrGet) ms) cats fs vt \<and>
         length h \<le> arr' \<and> arr' \<noteq> arr \<and>
         list_all (\<lambda>w. length h \<le> w) ws' \<and> set ws' \<inter> set ws = {} \<and>
         length rs' = length ms \<and>
         list_all (\<lambda>(m, old, new). if needsOriginalFormat m then length h \<le> new else new = old)
           (zip ms (zip rs rs')) \<and>
         (\<forall>x. x \<noteq> b \<longrightarrow> x < length h \<longrightarrow> at_index h' x = at_index h x)"
    by (rule exI [of _ h'], rule exI [of _ arr'], rule exI [of _ ws'], rule exI [of _ rs'])
      (intro conjI run wf' fa ne fw disj len fresh frame)
next
  assume wf: "holdsMdObject h a b arr ws rs ms cats fs vt"
    and bad: "list_ex (\<lambda>m. needsOriginalFormat m \<and> (\<exists>err. xhrGet (objectUri m) = Inl err)) ms"
  then show "\<exists>err. getDataForVis xhrGet sortDefs md5 h a = (h, Inl err)"
    by (rule getDataForVis_rejected)
qed

lemma holdsMdObject_exampleStore:
  "holdsMdObject exampleStore 0 1 2 [3, 4] [5, 6] [revenuePoP, revenue] [dateCategory] [] None"
  by (simp add: holdsMdObject_def exampleStore_def at_index_def)

lemma needs_revenuePoP: "needsOriginalFormat revenuePoP" "\<not> needsOriginalFormat revenue"
  by (simp_all add: needsOriginalFormat_def revenuePoP_def revenue_def)

theorem C10_getDataForVis_mutates_mdObj_witness:
  "holdsMdObject exampleStore 0 1 2 [3, 4] [5, 6] [revenuePoP, revenue] [dateCategory] [] None \<and>
   list_all (\<lambda>m. needsOriginalFormat m \<longrightarrow> (\<exists>fmt. exampleServer (objectUri m) = Inr fmt))
     [revenuePoP, revenue] \<and>
   (\<exists>h' arr' ws' rs'.
      fst (getDataForVis exampleServer sortDefinitions id exampleStore 0) = h' \<and>
      holdsMdObject h' 0 1 arr' ws' rs'
        [revenuePoP\<lparr>format := str ''$#,##0.00''\<rparr>, revenue] [dateCategory] [] None \<and>
      arr' \<noteq> 2 \<and> set ws' \<inter> {3, 4} = {}) \<and>
   fst (getDataForVis exampleServer sortDefinitions id exampleStore 0) =
     exampleStore[1 := BucketsAt 10 [dateCategory] []]
     @ [MeasureObject (revenuePoP\<lparr>format := str ''$#,##0.00''\<rparr>),
        WrapperOf 7, WrapperOf 6, ArrayOf [8, 9]]"
proof -
  note wf = holdsMdObject_exampleStore
  have ok: "list_all (\<lambda>m. needsOriginalFormat m \<longrightarrow> (\<exists>fmt. exampleServer (objectUri m) = Inr fmt))
     [revenuePoP, revenue]"
    by (simp add: exampleServer_def)
  have res: "map (withOriginalFormat exampleServer) [revenuePoP, revenue]
      = [revenuePoP\<lparr>format := str ''$#,##0.00''\<rparr>, revenue]"
    by (simp add: withOriginalFormat_def needs_revenuePoP exampleServer_def)
  from C10_getDataForVis_mutates_mdObj [OF wf, of exampleServer sortDefinitions id,
      THEN conjunct1, THEN mp, OF ok]
  obtain h' arr' ws' rs' where
    run: "getDataForVis exampleServer sortDefinitions id exampleStore 0 =
           (h', mdToExecutionConfiguration sortDefinitions id
                  \<lparr>buckets = \<lparr>measureList = map (withOriginalFormat exampleServer)
                                              [revenuePoP, revenue],
                              categories = [dateCategory], filters = []\<rparr>,
                   vtype = None\<rparr>
                  \<lparr>removeDateItems = False\<rparr>)"
    and wf': "holdsMdObject h' 0 1 arr' ws' rs'
        (map (withOriginalFormat exampleServer) [revenuePoP, revenue]) [dateCategory] [] None"
    and ne: "arr' \<noteq> 2"
    and disj: "set ws' \<inter> set [3, 4] = {}"
    by blast
  from run have h': "fst (getDataForVis exampleServer sortDefinitions id exampleStore 0) = h'"
    by simp
  from wf' have wf'': "holdsMdObject h' 0 1 arr' ws' rs'
        [revenuePoP\<lparr>format := str ''$#,##0.00''\<rparr>, revenue] [dateCategory] [] None"
    unfolding res .
  from disj have disj': "set ws' \<inter> {3, 4} = {}" by simp
  have first: "\<exists>h' arr' ws' rs'.
      fst (getDataForVis exampleServer sortDefinitions id exampleStore 0) = h' \<and>
      holdsMdObject h' 0 1 arr' ws' rs'
        [revenuePoP\<lparr>format := str ''$#,##0.00''\<rparr>, revenue] [dateCategory] [] None \<and>
      arr' \<noteq> 2 \<and> set ws' \<inter> {3, 4} = {}"
    by (rule exI [of _ h'], rule exI [of _ arr'], rule exI [of _ ws'], rule exI [of _ rs'])
      (intro conjI h' wf'' ne disj')
  have m5: "measureAt exampleStore 5 = Some revenuePoP"
    by (simp add: measureAt_def exampleStore_def at_index_def)
  have m6: "measureAt (exampleStore @ [x]) 6 = Some revenue" for x
    by (simp add: measureAt_def exampleStore_def at_index_def)
  have len7: "length exampleStore = 7"
    by (simp add: exampleStore_def)
  have rf6: "resolveFormats exampleServer (exampleStore @ [x]) [6]
      = Inr (exampleStore @ [x], [6])" for x
    by (simp add: m6 needs_revenuePoP)
  have rf: "resolveFormats exampleServer exampleStore [5, 6]
      = Inr (exampleStore @ [MeasureObject (revenuePoP\<lparr>format := str ''$#,##0.00''\<rparr>)], [7, 6])"
    by (subst resolveFormats.simps(2))
      (simp only: m5 option.case needs_revenuePoP if_True exampleServer_def sum.case
        alloc_def prod.case len7 rf6)
  have gomf: "getOriginalMetricFormats exampleServer exampleStore 0
      = Inr (exampleStore @ [MeasureObject (revenuePoP\<lparr>format := str ''$#,##0.00''\<rparr>)], [7, 6])"
    by (simp only: getOriginalMetricFormats_holds [OF wf] rf)
  have A1: "at_index (exampleStore @ [x]) 0 = Some (MdObjectAt 1 None)" for x
    by (simp add: exampleStore_def at_index_def)
  have B1: "at_index (exampleStore @ [x]) 1 = Some (BucketsAt 2 [dateCategory] [])" for x
    by (simp add: exampleStore_def at_index_def)
  have u: "[Suc 7 ..< Suc 7 + 2] = [8, 9]"
    by (simp add: upt_rec)
  have wm: "wrapMeasures (exampleStore @ [x]) [7, 6]
      = (exampleStore @ [x, WrapperOf 7, WrapperOf 6], [8, 9])" for x
    using u by (simp add: wrapMeasures_eq len7)
  have run2: "fst (getDataForVis exampleServer sortDefinitions id exampleStore 0) =
     (exampleStore @ [MeasureObject (revenuePoP\<lparr>format := str ''$#,##0.00''\<rparr>),
        WrapperOf 7, WrapperOf 6, ArrayOf [8, 9]])[1 := BucketsAt 10 [dateCategory] []]"
    unfolding getDataForVis_def
    by (simp only: gomf sum.case prod.case A1 B1 option.case jsobject.case wm alloc_def
        Let_def fst_conv length_append len7 list.size append.simps append_assoc) simp
  have second: "fst (getDataForVis exampleServer sortDefinitions id exampleStore 0) =
     exampleStore[1 := BucketsAt 10 [dateCategory] []]
     @ [MeasureObject (revenuePoP\<lparr>format := str ''$#,##0.00''\<rparr>),
        WrapperOf 7, WrapperOf 6, ArrayOf [8, 9]]"
    unfolding run2 by (simp add: list_update_append len7)
  from wf ok first second show ?thesis by blast
qed

end
